theory Spec2Isabelle
  imports Main "HOL-Library.Word"
begin

unbundle bit_operations_syntax

section \<open>Element kinds and the enabled type lists\<close>

text \<open>
  The element kinds of a tensor are the members of ONNX's \<^verbatim>\<open>TensorProto_DataType\<close>.
  \<^verbatim>\<open>cast_op.cc\<close> names fourteen of them as C++ types in its two
  \<^verbatim>\<open>ORT_SPECIFY_OP_KERNEL_ARG_SUPPORTED_TYPES\<close> declarations; the remaining members of the
  enumeration (undefined and the two complex kinds) are never listed there.
\<close>

datatype elem_kind =
    T_bool
  | T_float | T_double
  | T_uint8 | T_uint16 | T_uint32 | T_uint64
  | T_int8 | T_int16 | T_int32 | T_int64
  | T_MLFloat16 | T_BFloat16
  | T_string
  | T_undefined | T_complex64 | T_complex128

text \<open>The supported types of input 0 and of output 0, in the order of the source.\<close>

definition SupportedSrcTypes :: "elem_kind list" where
  "SupportedSrcTypes =
     [T_bool, T_float, T_double, T_uint8, T_uint16, T_uint32, T_uint64,
      T_int8, T_int16, T_int32, T_int64, T_MLFloat16, T_BFloat16, T_string]"

definition SupportedDstTypes :: "elem_kind list" where
  "SupportedDstTypes =
     [T_bool, T_float, T_double, T_uint8, T_uint16, T_uint32, T_uint64,
      T_int8, T_int16, T_int32, T_int64, T_MLFloat16, T_BFloat16, T_string]"

text \<open>
  \<^verbatim>\<open>EnabledSrcTypes\<close> and \<^verbatim>\<open>EnabledDstTypes\<close> come out of the macro
  \<^verbatim>\<open>ORT_OP_KERNEL_ARG_ENABLED_TYPE_LIST\<close>, which is defined outside this file: the build may
  reduce the supported lists. Both lists are therefore parameters of everything below,
  gathered in one record; \<open>default_build\<close> is the build that reduces nothing.
\<close>

record build =
  EnabledSrcTypes :: "elem_kind list"
  EnabledDstTypes :: "elem_kind list"
  AMD64 :: bool

definition default_build :: build where
  "default_build =
     \<lparr>EnabledSrcTypes = SupportedSrcTypes, EnabledDstTypes = SupportedDstTypes, AMD64 = False\<rparr>"

section \<open>Exceptions\<close>

text \<open>
  Every failure of this file is a C++ exception that leaves \<^verbatim>\<open>Cast::Compute\<close>:
  \<^verbatim>\<open>std::invalid_argument\<close> and \<^verbatim>\<open>std::out_of_range\<close> from the \<^verbatim>\<open>std::sto*\<close> parsers,
  the failure of the type dispatcher, and the failure of \<^verbatim>\<open>ORT_THROW_IF_ERROR\<close> around
  \<^verbatim>\<open>GetTempSpaceAllocator\<close>.
\<close>

datatype exception =
    invalid_argument
  | out_of_range
  | UnsupportedTypeError
  | AllocatorError

section \<open>The type-pair dispatcher\<close>

text \<open>
  Modelled from the spec: \<^verbatim>\<open>utils::MLTypeCallDispatcherFromTypeList\<close> is declared in
  \<^verbatim>\<open>core/framework/data_types_internal.h\<close>, which is not among the sources. The spec
  (section 4.4) gives its contract: dispatch on a runtime kind, restricted to a type list;
  a kind outside the list fails with UnsupportedTypeError; otherwise the functor
  instantiated for that kind is invoked.
\<close>

definition MLTypeCallDispatcher_Invoke ::
  "elem_kind list \<Rightarrow> elem_kind \<Rightarrow> (elem_kind \<Rightarrow> exception + 'a) \<Rightarrow> exception + 'a" where
  "MLTypeCallDispatcher_Invoke Types dt_type Fn =
     (if dt_type \<in> set Types then Fn dt_type else Inl UnsupportedTypeError)"

text \<open>
  \<^verbatim>\<open>SrcDispatcher<TSrc>\<close>: the destination list is \<^verbatim>\<open>EnabledDstTypes\<close> with \<^verbatim>\<open>TSrc\<close> removed
  (\<^verbatim>\<open>mp_remove_if_q<EnabledDstTypes, mp_bind_front<std::is_same, TSrc>>\<close>), and the functor
  invoked for the destination kind is \<^verbatim>\<open>Dispatcher<TSrc, TDst>\<close>, here the continuation
  \<open>Dispatcher\<close> applied to the pair.
\<close>

definition DstTypes :: "build \<Rightarrow> elem_kind \<Rightarrow> elem_kind list" where
  "DstTypes B TSrc = filter (\<lambda>T. T \<noteq> TSrc) (EnabledDstTypes B)"

definition SrcDispatcher ::
  "build \<Rightarrow> (elem_kind \<Rightarrow> elem_kind \<Rightarrow> exception + 'a) \<Rightarrow> elem_kind \<Rightarrow> elem_kind \<Rightarrow> exception + 'a" where
  "SrcDispatcher B Dispatcher to TSrc =
     MLTypeCallDispatcher_Invoke (DstTypes B TSrc) to (Dispatcher TSrc)"

text \<open>
  The two lines of \<^verbatim>\<open>Cast::Compute\<close> that dispatch: the outer dispatcher runs over
  \<^verbatim>\<open>EnabledSrcTypes\<close> on the source kind and invokes \<^verbatim>\<open>SrcDispatcher\<close>.
\<close>

definition dispatch ::
  "build \<Rightarrow> (elem_kind \<Rightarrow> elem_kind \<Rightarrow> exception + 'a) \<Rightarrow> elem_kind \<Rightarrow> elem_kind \<Rightarrow> exception + 'a" where
  "dispatch B Dispatcher from to =
     MLTypeCallDispatcher_Invoke (EnabledSrcTypes B) from (SrcDispatcher B Dispatcher to)"

text \<open>
  A caster is named by the template arguments of the \<^verbatim>\<open>TensorCaster\<close> that \<^verbatim>\<open>Dispatcher\<close>
  instantiates. \<open>Resolve\<close> is the dispatch that returns this name instead of running it.
\<close>

datatype caster = TensorCaster elem_kind elem_kind

definition Resolve :: "build \<Rightarrow> elem_kind \<Rightarrow> elem_kind \<Rightarrow> exception + caster" where
  "Resolve B s d = dispatch B (\<lambda>TSrc TDst. Inr (TensorCaster TSrc TDst)) s d"

section \<open>Element values\<close>

text \<open>
  One constructor per supported C++ element type. Integers are machine words of their
  width (the signed kinds are read with \<open>sint\<close>); the floating kinds carry their IEEE bit
  pattern; \<^verbatim>\<open>MLFloat16\<close> and \<^verbatim>\<open>BFloat16\<close> carry their 16-bit \<^verbatim>\<open>val\<close> field.
\<close>

datatype elem =
    V_bool bool
  | V_float "32 word" | V_double "64 word"
  | V_uint8 "8 word" | V_uint16 "16 word" | V_uint32 "32 word" | V_uint64 "64 word"
  | V_int8 "8 word" | V_int16 "16 word" | V_int32 "32 word" | V_int64 "64 word"
  | V_MLFloat16 "16 word" | V_BFloat16 "16 word"
  | V_string string

fun kind_of :: "elem \<Rightarrow> elem_kind" where
  "kind_of (V_bool _) = T_bool"
| "kind_of (V_float _) = T_float"
| "kind_of (V_double _) = T_double"
| "kind_of (V_uint8 _) = T_uint8"
| "kind_of (V_uint16 _) = T_uint16"
| "kind_of (V_uint32 _) = T_uint32"
| "kind_of (V_uint64 _) = T_uint64"
| "kind_of (V_int8 _) = T_int8"
| "kind_of (V_int16 _) = T_int16"
| "kind_of (V_int32 _) = T_int32"
| "kind_of (V_int64 _) = T_int64"
| "kind_of (V_MLFloat16 _) = T_MLFloat16"
| "kind_of (V_BFloat16 _) = T_BFloat16"
| "kind_of (V_string _) = T_string"

text \<open>The type traits that select the overloads of the string helpers.\<close>

definition is_floating_point :: "elem_kind \<Rightarrow> bool" where
  "is_floating_point T \<longleftrightarrow> T \<in> set [T_float, T_double]"

definition is_integral :: "elem_kind \<Rightarrow> bool" where
  "is_integral T \<longleftrightarrow>
     T \<in> set [T_bool, T_uint8, T_uint16, T_uint32, T_uint64, T_int8, T_int16, T_int32, T_int64]"

definition is_unsigned :: "elem_kind \<Rightarrow> bool" where
  "is_unsigned T \<longleftrightarrow> T \<in> set [T_bool, T_uint8, T_uint16, T_uint32, T_uint64]"

definition is_signed :: "elem_kind \<Rightarrow> bool" where
  "is_signed T \<longleftrightarrow> T \<in> set [T_int8, T_int16, T_int32, T_int64, T_float, T_double]"

text \<open>The width in bits of the integer kinds.\<close>

fun width :: "elem_kind \<Rightarrow> nat" where
  "width T_uint8 = 8"
| "width T_int8 = 8"
| "width T_uint16 = 16"
| "width T_int16 = 16"
| "width T_uint32 = 32"
| "width T_int32 = 32"
| "width T_uint64 = 64"
| "width T_int64 = 64"
| "width _ = 0"

text \<open>
  The numeric value of an integral element: \<open>uint\<close> of an unsigned word, \<open>sint\<close> of a
  signed one, 0 or 1 of a bool.
\<close>

fun integral_value :: "elem \<Rightarrow> int option" where
  "integral_value (V_bool b) = Some (if b then 1 else 0)"
| "integral_value (V_uint8 w) = Some (uint w)"
| "integral_value (V_uint16 w) = Some (uint w)"
| "integral_value (V_uint32 w) = Some (uint w)"
| "integral_value (V_uint64 w) = Some (uint w)"
| "integral_value (V_int8 w) = Some (sint w)"
| "integral_value (V_int16 w) = Some (sint w)"
| "integral_value (V_int32 w) = Some (sint w)"
| "integral_value (V_int64 w) = Some (sint w)"
| "integral_value _ = None"

section \<open>Primitives that are not part of this file\<close>

text \<open>
  The floating-point primitives of the C++ library, of Eigen and of MLAS are not defined in
  \<^verbatim>\<open>cast_op.cc\<close>; they are parameters of the model, on IEEE bit patterns:
  \<^item> \<open>stod\<close>: \<^verbatim>\<open>std::stod\<close>, which throws as the integer parsers do;
  \<^item> \<open>narrow_cast_float\<close>: \<^verbatim>\<open>gsl::narrow_cast<float>\<close> of a double;
  \<^item> the four \<^verbatim>\<open>static_cast\<close>s between float and \<^verbatim>\<open>MLFloat16\<close>/\<^verbatim>\<open>BFloat16\<close>;
  \<^item> \<open>ostream_float\<close>, \<open>ostream_double\<close>: \<^verbatim>\<open>operator<<\<close> of a finite value under
    \<^verbatim>\<open>std::setprecision(p)\<close>;
  \<^item> \<open>eigen_cast\<close>: Eigen's elementwise \<^verbatim>\<open>cast\<close> where the source or the destination is a
    floating kind;
  \<^item> \<open>MlasConvertHalfToFloat\<close>: one element of \<^verbatim>\<open>MlasConvertHalfToFloatBuffer\<close>.
\<close>

record prims =
  stod :: "string \<Rightarrow> exception + 64 word"
  narrow_cast_float :: "64 word \<Rightarrow> 32 word"
  float_of_MLFloat16 :: "16 word \<Rightarrow> 32 word"
  float_of_BFloat16 :: "16 word \<Rightarrow> 32 word"
  MLFloat16_of_float :: "32 word \<Rightarrow> 16 word"
  BFloat16_of_float :: "32 word \<Rightarrow> 16 word"
  ostream_float :: "nat \<Rightarrow> 32 word \<Rightarrow> string"
  ostream_double :: "nat \<Rightarrow> 64 word \<Rightarrow> string"
  eigen_cast :: "elem \<Rightarrow> elem_kind \<Rightarrow> elem"
  MlasConvertHalfToFloat :: "16 word \<Rightarrow> 32 word"

section \<open>The integer parsers of the C++ library\<close>

text \<open>
  \<^verbatim>\<open>std::stoll\<close> and \<^verbatim>\<open>std::stoull\<close> call \<^verbatim>\<open>strtoll\<close> and \<^verbatim>\<open>strtoull\<close> in base 10. The
  subject sequence is: white space (skipped), an optional sign, and the longest run of
  decimal digits; whatever follows is left unread. No digit: \<^verbatim>\<open>std::invalid_argument\<close>.
  A value the 64-bit type cannot hold (\<^verbatim>\<open>ERANGE\<close>): \<^verbatim>\<open>std::out_of_range\<close>. \<^verbatim>\<open>strtoull\<close>
  accepts a minus sign and negates the magnitude in the unsigned type.
\<close>

definition isspace :: "char \<Rightarrow> bool" where
  "isspace c \<longleftrightarrow> c \<in> set [CHR '' '', CHR 0x09, CHR 0x0A, CHR 0x0B, CHR 0x0C, CHR 0x0D]"

definition isdigit :: "char \<Rightarrow> bool" where
  "isdigit c \<longleftrightarrow> (48::int) \<le> of_char c \<and> of_char c \<le> (57::int)"

definition digit_value :: "char \<Rightarrow> int" where
  "digit_value c = of_char c - 48"

definition digits_value :: "string \<Rightarrow> int" where
  "digits_value ds = foldl (\<lambda>acc c. 10 * acc + digit_value c) 0 ds"

fun strip_sign :: "string \<Rightarrow> bool \<times> string" where
  "strip_sign [] = (False, [])"
| "strip_sign (c # cs) =
     (if c = CHR ''-'' then (True, cs)
      else if c = CHR ''+'' then (False, cs)
      else (False, c # cs))"

definition subject_sequence :: "string \<Rightarrow> bool \<times> string" where
  "subject_sequence s =
     (let (negative, rest) = strip_sign (dropWhile isspace s)
      in (negative, takeWhile isdigit rest))"

definition stoll :: "string \<Rightarrow> exception + 64 word" where
  "stoll s =
     (let (negative, ds) = subject_sequence s in
      if ds = [] then Inl invalid_argument
      else let v = (if negative then - digits_value ds else digits_value ds) in
        if v < - (2 ^ 63) \<or> 2 ^ 63 \<le> v then Inl out_of_range
        else Inr (word_of_int v))"

definition stoull :: "string \<Rightarrow> exception + 64 word" where
  "stoull s =
     (let (negative, ds) = subject_sequence s in
      if ds = [] then Inl invalid_argument
      else if 2 ^ 64 \<le> digits_value ds then Inl out_of_range
      else Inr (if negative then - word_of_int (digits_value ds)
                else word_of_int (digits_value ds)))"

text \<open>
  The integer that a text denotes for these parsers: the digits of the subject sequence
  with its sign; none if there is no digit.
\<close>

definition numeric_value :: "string \<Rightarrow> int option" where
  "numeric_value s =
     (let (negative, ds) = subject_sequence s in
      if ds = [] then None
      else Some (if negative then - digits_value ds else digits_value ds))"

section \<open>Text to number: \<^verbatim>\<open>CastFromString\<close>\<close>

text \<open>
  \<^verbatim>\<open>gsl::narrow_cast<DstType>\<close> is \<^verbatim>\<open>static_cast<DstType>\<close>: no range check. Of a 64-bit
  integer to a narrower integer type it keeps the low bits; to bool it tests against zero.
  The last equation stands for the kinds at which this overload does not exist.
\<close>

fun narrow_cast_integral :: "elem_kind \<Rightarrow> 64 word \<Rightarrow> elem option" where
  "narrow_cast_integral T_bool v = Some (V_bool (v \<noteq> 0))"
| "narrow_cast_integral T_uint8 v = Some (V_uint8 (ucast v))"
| "narrow_cast_integral T_uint16 v = Some (V_uint16 (ucast v))"
| "narrow_cast_integral T_uint32 v = Some (V_uint32 (ucast v))"
| "narrow_cast_integral T_uint64 v = Some (V_uint64 v)"
| "narrow_cast_integral T_int8 v = Some (V_int8 (ucast v))"
| "narrow_cast_integral T_int16 v = Some (V_int16 (ucast v))"
| "narrow_cast_integral T_int32 v = Some (V_int32 (ucast v))"
| "narrow_cast_integral T_int64 v = Some (V_int64 v)"
| "narrow_cast_integral _ v = None"

fun narrow_cast_floating :: "prims \<Rightarrow> elem_kind \<Rightarrow> 64 word \<Rightarrow> elem option" where
  "narrow_cast_floating P T_double v = Some (V_double v)"
| "narrow_cast_floating P T_float v = Some (V_float (narrow_cast_float P v))"
| "narrow_cast_floating P _ v = None"

text \<open>
  The result of a conversion is \<open>None\<close> where C++ has no overload for the destination type
  (the instantiation does not compile; the dispatcher never asks for it), \<open>Some (Inl e)\<close>
  where the parser throws \<open>e\<close>, and \<open>Some (Inr v)\<close> where \<open>v\<close> is stored in \<^verbatim>\<open>output\<close>.
\<close>

definition narrowed ::
  "(64 word \<Rightarrow> elem option) \<Rightarrow> exception + 64 word \<Rightarrow> (exception + elem) option" where
  "narrowed narrow_cast parsed =
     (case parsed of
        Inl e \<Rightarrow> Some (Inl e)
      | Inr v \<Rightarrow> map_option Inr (narrow_cast v))"

text \<open>The three templates, each with its \<^verbatim>\<open>enable_if\<close> condition.\<close>

definition CastFromString_floating :: "prims \<Rightarrow> elem_kind \<Rightarrow> string \<Rightarrow> (exception + elem) option" where
  "CastFromString_floating P DstType input =
     (if is_floating_point DstType
      then narrowed (narrow_cast_floating P DstType) (stod P input) else None)"

definition CastFromString_unsigned :: "elem_kind \<Rightarrow> string \<Rightarrow> (exception + elem) option" where
  "CastFromString_unsigned DstType input =
     (if is_integral DstType \<and> is_unsigned DstType
      then narrowed (narrow_cast_integral DstType) (stoull input) else None)"

definition CastFromString_signed :: "elem_kind \<Rightarrow> string \<Rightarrow> (exception + elem) option" where
  "CastFromString_signed DstType input =
     (if is_integral DstType \<and> is_signed DstType
      then narrowed (narrow_cast_integral DstType) (stoll input) else None)"

text \<open>
  The two overloads for \<^verbatim>\<open>MLFloat16\<close> and \<^verbatim>\<open>BFloat16\<close>: parse into a float
  \<^verbatim>\<open>intermediate\<close>, then \<^verbatim>\<open>static_cast\<close> it down.
\<close>

definition CastFromString_MLFloat16 :: "prims \<Rightarrow> string \<Rightarrow> (exception + elem) option" where
  "CastFromString_MLFloat16 P input =
     (case CastFromString_floating P T_float input of
        Some (Inr (V_float intermediate)) \<Rightarrow> Some (Inr (V_MLFloat16 (MLFloat16_of_float P intermediate)))
      | r \<Rightarrow> r)"

definition CastFromString_BFloat16 :: "prims \<Rightarrow> string \<Rightarrow> (exception + elem) option" where
  "CastFromString_BFloat16 P input =
     (case CastFromString_floating P T_float input of
        Some (Inr (V_float intermediate)) \<Rightarrow> Some (Inr (V_BFloat16 (BFloat16_of_float P intermediate)))
      | r \<Rightarrow> r)"

text \<open>Overload resolution: the non-template overloads first, then the enabled template.\<close>

definition CastFromString :: "prims \<Rightarrow> elem_kind \<Rightarrow> string \<Rightarrow> (exception + elem) option" where
  "CastFromString P DstType input =
     (if DstType = T_MLFloat16 then CastFromString_MLFloat16 P input
      else if DstType = T_BFloat16 then CastFromString_BFloat16 P input
      else if is_floating_point DstType then CastFromString_floating P DstType input
      else if is_integral DstType \<and> is_unsigned DstType then CastFromString_unsigned DstType input
      else if is_integral DstType \<and> is_signed DstType then CastFromString_signed DstType input
      else None)"

section \<open>Number to text: \<^verbatim>\<open>CastToString\<close>\<close>

subsection \<open>Classification and order of IEEE bit patterns\<close>

text \<open>
  A binary floating-point value of width \<open>LENGTH('a)\<close> with \<open>m\<close> mantissa bits: the top bit
  is the sign, the magnitude is the rest; the magnitude whose exponent bits are all ones
  and whose mantissa is zero is infinity, every larger magnitude is a NaN.
  \<^verbatim>\<open>std::isnan\<close>, \<^verbatim>\<open>std::isinf\<close>, \<^verbatim>\<open>operator<\<close> and \<^verbatim>\<open>std::numeric_limits::lowest()\<close> on
  these patterns:
\<close>

definition signbit :: "'a::len word \<Rightarrow> bool" where
  "signbit x = bit x (LENGTH('a) - 1)"

definition magnitude :: "'a::len word \<Rightarrow> int" where
  "magnitude x = uint (take_bit (LENGTH('a) - 1) x)"

definition infinity_magnitude :: "'a::len itself \<Rightarrow> nat \<Rightarrow> int" where
  "infinity_magnitude t m = 2 ^ (LENGTH('a) - 1) - 2 ^ m"

definition isnan :: "nat \<Rightarrow> 'a::len word \<Rightarrow> bool" where
  "isnan m x \<longleftrightarrow> infinity_magnitude TYPE('a) m < magnitude x"

definition isinf :: "nat \<Rightarrow> 'a::len word \<Rightarrow> bool" where
  "isinf m x \<longleftrightarrow> magnitude x = infinity_magnitude TYPE('a) m"

text \<open>
  Sign and magnitude give the order of the values that are not NaN (the two zeros are
  equal); a comparison with a NaN is false.
\<close>

definition fp_order :: "'a::len word \<Rightarrow> int" where
  "fp_order x = (if signbit x then - magnitude x else magnitude x)"

definition fp_less :: "nat \<Rightarrow> 'a::len word \<Rightarrow> 'a word \<Rightarrow> bool" where
  "fp_less m x y \<longleftrightarrow> \<not> isnan m x \<and> \<not> isnan m y \<and> fp_order x < fp_order y"

text \<open>\<^verbatim>\<open>lowest()\<close>: the sign bit set on the largest finite magnitude.\<close>

definition lowest :: "nat \<Rightarrow> 'a::len word" where
  "lowest m = word_of_int (2 ^ (LENGTH('a) - 1) + (infinity_magnitude TYPE('a) m - 1))"

subsection \<open>The floating template\<close>

definition CastToString_floating :: "nat \<Rightarrow> (nat \<Rightarrow> 'a::len word \<Rightarrow> string) \<Rightarrow> 'a word \<Rightarrow> string" where
  "CastToString_floating m put input =
     (if isnan m input then ''NaN''
      else if isinf m input then
        (if fp_less m input (lowest m) then ''-INF'' else ''INF'')
      else put 8 input)"

subsection \<open>The other template: stream insertion with default flags\<close>

text \<open>
  \<^verbatim>\<open>convert << input\<close> with the flags of a fresh \<^verbatim>\<open>std::ostringstream\<close>: an integer of 16
  bits or more is written in decimal, with a minus sign if negative; a bool is written as
  1 or 0 (\<^verbatim>\<open>boolalpha\<close> is off); \<^verbatim>\<open>uint8_t\<close> and \<^verbatim>\<open>int8_t\<close> are \<^verbatim>\<open>unsigned char\<close> and
  \<^verbatim>\<open>signed char\<close>, which the stream writes as the one character with that code.
\<close>

fun decimal_digits :: "nat \<Rightarrow> string" where
  "decimal_digits n =
     (if n < 10 then [char_of (48 + n)]
      else decimal_digits (n div 10) @ [char_of (48 + n mod 10)])"

declare decimal_digits.simps [simp del]

definition decimal :: "int \<Rightarrow> string" where
  "decimal i = (if i < 0 then CHR ''-'' # decimal_digits (nat (- i)) else decimal_digits (nat i))"

text \<open>
  \<^verbatim>\<open>CastToString\<close> at each element type: the floating template for float and double, the
  two overloads that go through \<^verbatim>\<open>static_cast<float>\<close>, and the stream insertion above.
\<close>

fun CastToString :: "prims \<Rightarrow> elem \<Rightarrow> string" where
  "CastToString P (V_float x) = CastToString_floating 23 (ostream_float P) x"
| "CastToString P (V_double x) = CastToString_floating 52 (ostream_double P) x"
| "CastToString P (V_MLFloat16 h) =
     CastToString_floating 23 (ostream_float P) (float_of_MLFloat16 P h)"
| "CastToString P (V_BFloat16 h) =
     CastToString_floating 23 (ostream_float P) (float_of_BFloat16 P h)"
| "CastToString P (V_bool b) = (if b then ''1'' else ''0'')"
| "CastToString P (V_uint8 w) = [char_of (uint w)]"
| "CastToString P (V_int8 w) = [char_of (uint w)]"
| "CastToString P (V_uint16 w) = decimal (uint w)"
| "CastToString P (V_uint32 w) = decimal (uint w)"
| "CastToString P (V_uint64 w) = decimal (uint w)"
| "CastToString P (V_int16 w) = decimal (sint w)"
| "CastToString P (V_int32 w) = decimal (sint w)"
| "CastToString P (V_int64 w) = decimal (sint w)"
| "CastToString P (V_string s) = s"

section \<open>Tensors, memory and the kernel context\<close>

text \<open>
  The tensor class of the framework is used here, not defined: a tensor is a kind, a shape
  and the address of its buffer, and the memory maps an address to the elements stored
  there. \<^verbatim>\<open>TensorShape::Size()\<close> is the product of the dimensions. The elements of a tensor
  are the first \<open>Size\<close> elements at its address.
\<close>

type_synonym memory = "nat \<Rightarrow> elem list"

record Tensor =
  dtype :: elem_kind
  shape :: "nat list"
  data :: nat

definition Size :: "nat list \<Rightarrow> nat" where
  "Size dims = prod_list dims"

definition contents :: "memory \<Rightarrow> Tensor \<Rightarrow> elem list" where
  "contents mem T = take (Size (shape T)) (mem (data T))"

text \<open>Writing the elements \<open>new\<close> to the first slots of the buffer at \<open>a\<close>.\<close>

definition store :: "memory \<Rightarrow> nat \<Rightarrow> elem list \<Rightarrow> memory" where
  "store mem a new = mem(a := new @ drop (length new) (mem a))"

text \<open>
  What \<^verbatim>\<open>Cast::Compute\<close> reads from its \<^verbatim>\<open>OpKernelContext\<close>: input 0, the buffer that
  \<^verbatim>\<open>context->Output(0, shape)\<close> hands out (the kernel is registered with
  \<^verbatim>\<open>MayInplace(0, 0)\<close>, so this may be the buffer of input 0), and whether
  \<^verbatim>\<open>GetTempSpaceAllocator\<close> succeeds.
\<close>

record OpKernelContext =
  Input0 :: Tensor
  Output0_data :: nat
  TempSpaceAllocator_ok :: bool

text \<open>
  Modelled from the spec: \<^verbatim>\<open>CopyCpuTensor\<close> is declared in
  \<^verbatim>\<open>core/providers/cpu/tensor/utils.h\<close>, which is not among the sources. The spec (section
  4.5) and the comment at its call give its contract: a buffer copy, and nothing at all if
  source and destination are the same memory.
\<close>

definition CopyCpuTensor :: "memory \<Rightarrow> Tensor \<Rightarrow> Tensor \<Rightarrow> memory" where
  "CopyCpuTensor mem X Y =
     (if data X \<noteq> data Y then store mem (data Y) (contents mem X) else mem)"

section \<open>The casters\<close>

subsection \<open>Generic: Eigen's elementwise cast\<close>

text \<open>
  \<^verbatim>\<open>in_vector.cast<DstType>()\<close> is \<^verbatim>\<open>static_cast<DstType>\<close> of each element. Between the
  integral kinds this is written out: the value is reduced modulo two to the width of the
  destination, and a bool is the test against zero. With a floating kind on either side it
  is the parameter \<open>eigen_cast\<close>.
\<close>

fun integral_elem :: "elem_kind \<Rightarrow> int \<Rightarrow> elem option" where
  "integral_elem T_bool i = Some (V_bool (i \<noteq> 0))"
| "integral_elem T_uint8 i = Some (V_uint8 (word_of_int i))"
| "integral_elem T_uint16 i = Some (V_uint16 (word_of_int i))"
| "integral_elem T_uint32 i = Some (V_uint32 (word_of_int i))"
| "integral_elem T_uint64 i = Some (V_uint64 (word_of_int i))"
| "integral_elem T_int8 i = Some (V_int8 (word_of_int i))"
| "integral_elem T_int16 i = Some (V_int16 (word_of_int i))"
| "integral_elem T_int32 i = Some (V_int32 (word_of_int i))"
| "integral_elem T_int64 i = Some (V_int64 (word_of_int i))"
| "integral_elem _ i = None"

definition static_cast :: "prims \<Rightarrow> elem_kind \<Rightarrow> elem \<Rightarrow> elem" where
  "static_cast P DstType x =
     (case integral_value x of
        None \<Rightarrow> eigen_cast P x DstType
      | Some i \<Rightarrow>
          (case integral_elem DstType i of
             None \<Rightarrow> eigen_cast P x DstType
           | Some y \<Rightarrow> y))"

definition generic_Cast :: "prims \<Rightarrow> elem_kind \<Rightarrow> elem list \<Rightarrow> elem list" where
  "generic_Cast P DstType in_vector = map (static_cast P DstType) in_vector"

subsection \<open>To and from strings\<close>

text \<open>
  A caster returns the exception that left it, if any, and the elements it has written to
  the front of the output buffer by then. \<^verbatim>\<open>in.Data<T>()\<close> enforces that the tensor has
  kind \<open>T\<close>, so only the matching constructor occurs where a buffer is read; the other
  equations of \<open>string_of\<close> and \<open>val\<close> make the functions total.
\<close>

definition to_string_Cast :: "prims \<Rightarrow> elem list \<Rightarrow> elem list" where
  "to_string_Cast P in_data = map (\<lambda>x. V_string (CastToString P x)) in_data"

fun string_of :: "elem \<Rightarrow> string" where
  "string_of (V_string s) = s"
| "string_of _ = []"

fun from_string_Cast ::
  "prims \<Rightarrow> elem_kind \<Rightarrow> elem list \<Rightarrow> (exception option \<times> elem list) option" where
  "from_string_Cast P DstType [] = Some (None, [])"
| "from_string_Cast P DstType (x # in_data) =
     (case CastFromString P DstType (string_of x) of
        None \<Rightarrow> None
      | Some (Inl e) \<Rightarrow> Some (Some e, [])
      | Some (Inr v) \<Rightarrow>
          map_option (\<lambda>(e, out_data). (e, v # out_data)) (from_string_Cast P DstType in_data))"

subsection \<open>The specializations for \<^verbatim>\<open>MLFloat16\<close> on AMD64\<close>

fun val :: "elem \<Rightarrow> 16 word" where
  "val (V_MLFloat16 h) = h"
| "val _ = 0"

definition MlasConvertHalfToFloatBuffer :: "prims \<Rightarrow> elem list \<Rightarrow> elem list" where
  "MlasConvertHalfToFloatBuffer P in_data =
     map (\<lambda>x. V_float (MlasConvertHalfToFloat P (val x))) in_data"

text \<open>\<^verbatim>\<open>TensorCaster<float, DstType>\<close>, the second stage: to string, or generic.\<close>

definition float_Cast :: "prims \<Rightarrow> elem_kind \<Rightarrow> elem list \<Rightarrow> elem list" where
  "float_Cast P DstType in_data =
     (if DstType = T_string then to_string_Cast P in_data else generic_Cast P DstType in_data)"

definition CastMLFloat16ThroughFloat ::
  "prims \<Rightarrow> bool \<Rightarrow> elem_kind \<Rightarrow> elem list \<Rightarrow> exception option \<times> elem list" where
  "CastMLFloat16ThroughFloat P allocator_ok DstType in_data =
     (if \<not> allocator_ok then (Some AllocatorError, [])
      else let intermediate_tensor = MlasConvertHalfToFloatBuffer P in_data
           in (None, float_Cast P DstType intermediate_tensor))"

subsection \<open>Selection of the specialization\<close>

text \<open>
  \<^verbatim>\<open>TensorCaster<SrcType, DstType>::Cast\<close>. The result is \<open>None\<close> where the instantiation
  does not exist in C++ (a string source with a destination for which \<^verbatim>\<open>CastFromString\<close>
  has no overload).
\<close>

definition TensorCaster_Cast ::
  "build \<Rightarrow> prims \<Rightarrow> bool \<Rightarrow> elem_kind \<Rightarrow> elem_kind \<Rightarrow> elem list
     \<Rightarrow> (exception option \<times> elem list) option" where
  "TensorCaster_Cast B P allocator_ok SrcType DstType in_data =
     (if SrcType = T_string then from_string_Cast P DstType in_data
      else if AMD64 B \<and> SrcType = T_MLFloat16 then
        (if DstType = T_float then Some (None, MlasConvertHalfToFloatBuffer P in_data)
         else Some (CastMLFloat16ThroughFloat P allocator_ok DstType in_data))
      else if DstType = T_string then Some (None, to_string_Cast P in_data)
      else Some (None, generic_Cast P DstType in_data))"

section \<open>\<^verbatim>\<open>Cast::Compute\<close>\<close>

text \<open>
  The result of an invocation: the status returned or the exception thrown, the output
  tensor, the memory afterwards, and the calls made to the collaborators, in order.
\<close>

datatype Status = OK

datatype call =
    Call_CopyCpuTensor
  | Call_dispatcher
  | Call_TensorCaster elem_kind elem_kind

record result =
  outcome :: "exception + Status"
  Y :: Tensor
  mem_after :: memory
  calls :: "call list"

definition Compute ::
  "build \<Rightarrow> prims \<Rightarrow> elem_kind \<Rightarrow> OpKernelContext \<Rightarrow> memory \<Rightarrow> result option" where
  "Compute B P to context mem =
     (let X = Input0 context;
          Y = \<lparr>dtype = to, shape = shape X, data = Output0_data context\<rparr>
      in
      if Size (shape X) = 0 then
        Some \<lparr>outcome = Inr OK, Y = Y, mem_after = mem, calls = []\<rparr>
      else if dtype X = to then
        Some \<lparr>outcome = Inr OK, Y = Y, mem_after = CopyCpuTensor mem X Y,
              calls = [Call_CopyCpuTensor]\<rparr>
      else
        (case Resolve B (dtype X) to of
           Inl e \<Rightarrow>
             Some \<lparr>outcome = Inl e, Y = Y, mem_after = mem, calls = [Call_dispatcher]\<rparr>
         | Inr (TensorCaster TSrc TDst) \<Rightarrow>
             (case TensorCaster_Cast B P (TempSpaceAllocator_ok context) TSrc TDst
                     (contents mem X) of
                None \<Rightarrow> None
              | Some (thrown, out_data) \<Rightarrow>
                  Some \<lparr>outcome = (case thrown of None \<Rightarrow> Inr OK | Some e \<Rightarrow> Inl e),
                        Y = Y,
                        mem_after = store mem (data Y) out_data,
                        calls = [Call_dispatcher, Call_TensorCaster TSrc TDst]\<rparr>)))"

section \<open>Concrete inputs for the examples\<close>

text \<open>
  An instance of the parameters: the examples below run on integers and text only and never
  reach a floating primitive.
\<close>

definition example_prims :: prims where
  "example_prims =
     \<lparr>stod = (\<lambda>input. Inl invalid_argument),
      narrow_cast_float = (\<lambda>v. 0),
      float_of_MLFloat16 = (\<lambda>h. 0),
      float_of_BFloat16 = (\<lambda>h. 0),
      MLFloat16_of_float = (\<lambda>f. 0),
      BFloat16_of_float = (\<lambda>f. 0),
      ostream_float = (\<lambda>precision f. []),
      ostream_double = (\<lambda>precision f. []),
      eigen_cast = (\<lambda>x DstType. x),
      MlasConvertHalfToFloat = (\<lambda>h. 0)\<rparr>"

text \<open>A memory with one buffer, at address 0.\<close>

definition single_buffer :: "elem list \<Rightarrow> memory" where
  "single_buffer xs = (\<lambda>a. if a = 0 then xs else [])"

text \<open>A context whose output has a buffer of its own, at address 1, and one that runs in place.\<close>

definition separate_context :: "elem_kind \<Rightarrow> nat list \<Rightarrow> OpKernelContext" where
  "separate_context from dims =
     \<lparr>Input0 = \<lparr>dtype = from, shape = dims, data = 0\<rparr>, Output0_data = 1,
      TempSpaceAllocator_ok = True\<rparr>"

definition inplace_context :: "elem_kind \<Rightarrow> nat list \<Rightarrow> OpKernelContext" where
  "inplace_context from dims =
     \<lparr>Input0 = \<lparr>dtype = from, shape = dims, data = 0\<rparr>, Output0_data = 0,
      TempSpaceAllocator_ok = True\<rparr>"

text \<open>
  A second instance of the parameters, in which the conversions of a half agree: MLAS
  and the scalar conversion give the same float, and Eigen's cast of a half is its cast of
  that float. The parser accepts every text as 1.5.
\<close>

definition through_float_prims :: prims where
  "through_float_prims =
     \<lparr>stod = (\<lambda>input. Inr 0x3FF8000000000000),
      narrow_cast_float = (\<lambda>v. 0x3FC00000),
      float_of_MLFloat16 = (\<lambda>h. 0x3FC00000),
      float_of_BFloat16 = (\<lambda>h. 0x3FC00000),
      MLFloat16_of_float = (\<lambda>f. 0x3E00),
      BFloat16_of_float = (\<lambda>f. 0x3FC0),
      ostream_float = (\<lambda>precision f. ''1.5''),
      ostream_double = (\<lambda>precision f. ''1.5''),
      eigen_cast = (\<lambda>x DstType. case x of V_MLFloat16 h \<Rightarrow> V_float 0x3FC00000 | y \<Rightarrow> y),
      MlasConvertHalfToFloat = (\<lambda>h. 0x3FC00000)\<rparr>"


section \<open>Text to number, as the specification words it\<close>

text \<open>
  The specification (section 4.1) sorts the numeric destinations into categories and gives
  one rule per category: a floating destination parses through the double-precision parser
  and narrows; an unsigned-integer destination through the widest unsigned parser; a
  signed-integer destination through the widest signed parser; a reduced-precision float
  destination parses into a 32-bit float first and then converts down. Narrowing an
  integer is stated here on values: the parsed value is brought into the destination kind
  by \<open>integral_elem\<close>.
\<close>

datatype category = Floating | UnsignedInteger | SignedInteger | ReducedPrecisionFloat

fun category_of :: "elem_kind \<Rightarrow> category option" where
  "category_of T_float = Some Floating"
| "category_of T_double = Some Floating"
| "category_of T_uint8 = Some UnsignedInteger"
| "category_of T_uint16 = Some UnsignedInteger"
| "category_of T_uint32 = Some UnsignedInteger"
| "category_of T_uint64 = Some UnsignedInteger"
| "category_of T_int8 = Some SignedInteger"
| "category_of T_int16 = Some SignedInteger"
| "category_of T_int32 = Some SignedInteger"
| "category_of T_int64 = Some SignedInteger"
| "category_of T_MLFloat16 = Some ReducedPrecisionFloat"
| "category_of T_BFloat16 = Some ReducedPrecisionFloat"
| "category_of _ = None"

text \<open>
  The floating rule, for the destinations float and double: the double-precision parser,
  then the narrowing to the destination. A double destination receives the parsed double;
  a float destination receives that double narrowed to a 32-bit float.
\<close>

definition spec_parse_floating :: "prims \<Rightarrow> elem_kind \<Rightarrow> string \<Rightarrow> (exception + elem) option" where
  "spec_parse_floating P K text =
     (case stod P text of
        Inl e \<Rightarrow> Some (Inl e)
      | Inr v \<Rightarrow>
          Some (Inr (if K = T_double then V_double v else V_float (narrow_cast_float P v))))"

text \<open>
  The reduced-precision rule: the 32-bit float of the floating rule, converted down to the
  16-bit destination.
\<close>

fun convert_down :: "prims \<Rightarrow> elem_kind \<Rightarrow> elem \<Rightarrow> elem" where
  "convert_down P K (V_float f) =
     (if K = T_MLFloat16 then V_MLFloat16 (MLFloat16_of_float P f)
      else V_BFloat16 (BFloat16_of_float P f))"
| "convert_down P K x = x"

definition spec_text_to_numeric :: "prims \<Rightarrow> elem_kind \<Rightarrow> string \<Rightarrow> (exception + elem) option" where
  "spec_text_to_numeric P K text =
     (case category_of K of
        None \<Rightarrow> None
      | Some Floating \<Rightarrow> spec_parse_floating P K text
      | Some UnsignedInteger \<Rightarrow>
          (case stoull text of
             Inl e \<Rightarrow> Some (Inl e)
           | Inr v \<Rightarrow> map_option Inr (integral_elem K (uint v)))
      | Some SignedInteger \<Rightarrow>
          (case stoll text of
             Inl e \<Rightarrow> Some (Inl e)
           | Inr v \<Rightarrow> map_option Inr (integral_elem K (sint v)))
      | Some ReducedPrecisionFloat \<Rightarrow>
          map_option (map_sum id (convert_down P K)) (spec_parse_floating P T_float text))"

text \<open>
  A well-formed decimal integer, for the examples: an optional sign, then one or more
  digits, and nothing else.
\<close>

definition well_formed_integer :: "string \<Rightarrow> bool" where
  "well_formed_integer s \<longleftrightarrow> snd (strip_sign s) \<noteq> [] \<and> list_all isdigit (snd (strip_sign s))"

section \<open>Dispatcher closure\<close>

lemma Resolve_cases:
  "Resolve B s d =
     (if s \<in> set (EnabledSrcTypes B) \<and> d \<in> set (EnabledDstTypes B) \<and> s \<noteq> d
      then Inr (TensorCaster s d) else Inl UnsupportedTypeError)"
  by (auto simp: Resolve_def dispatch_def SrcDispatcher_def DstTypes_def
      MLTypeCallDispatcher_Invoke_def)

lemma Compute_dispatches_distinct_kinds:
  assumes "Compute B P to context mem = Some r" and "Call_dispatcher \<in> set (calls r)"
  shows "dtype (Input0 context) \<noteq> to \<and> Size (shape (Input0 context)) \<noteq> 0
     \<and> (dtype (Input0 context) \<notin> set (EnabledSrcTypes B) \<or> to \<notin> set (EnabledDstTypes B)
          \<longrightarrow> outcome r = Inl UnsupportedTypeError \<and> calls r = [Call_dispatcher]
            \<and> mem_after r = mem)
     \<and> (dtype (Input0 context) \<in> set (EnabledSrcTypes B) \<and> to \<in> set (EnabledDstTypes B)
          \<longrightarrow> calls r = [Call_dispatcher, Call_TensorCaster (dtype (Input0 context)) to])"
  using assms
  by (auto simp add: Compute_def Let_def Resolve_cases split: if_splits option.splits)

text \<open>
  Claim C2: \<^verbatim>\<open>Cast::Compute\<close> reaches the dispatcher only with a source kind s different
  from the destination kind d (equal kinds are copied before). For such a pair the
  dispatch fails with UnsupportedTypeError if and only if s is outside the enabled source
  list or d is outside the enabled destination list; it fails with no other error; and for
  every enabled pair it succeeds and selects the caster of exactly that pair, which is the
  caster \<^verbatim>\<open>Cast::Compute\<close> then runs.
\<close>

theorem C2_dispatcher_closure:
  "(s \<noteq> d
      \<longrightarrow> (Resolve B s d = Inl UnsupportedTypeError
            \<longleftrightarrow> s \<notin> set (EnabledSrcTypes B) \<or> d \<notin> set (EnabledDstTypes B)))
   \<and> (\<forall>e. Resolve B s d = Inl e \<longrightarrow> e = UnsupportedTypeError)
   \<and> (s \<in> set (EnabledSrcTypes B) \<and> d \<in> set (EnabledDstTypes B) \<and> s \<noteq> d
        \<longrightarrow> Resolve B s d = Inr (TensorCaster s d))
   \<and> (Compute B P d context mem = Some r \<and> dtype (Input0 context) = s
        \<and> Call_dispatcher \<in> set (calls r)
      \<longrightarrow> s \<noteq> d
        \<and> (s \<notin> set (EnabledSrcTypes B) \<or> d \<notin> set (EnabledDstTypes B)
             \<longrightarrow> outcome r = Inl UnsupportedTypeError \<and> calls r = [Call_dispatcher])
        \<and> (s \<in> set (EnabledSrcTypes B) \<and> d \<in> set (EnabledDstTypes B)
             \<longrightarrow> calls r = [Call_dispatcher, Call_TensorCaster s d]))"
proof (intro conjI impI allI)
  assume "s \<noteq> d"
  then show "Resolve B s d = Inl UnsupportedTypeError
      \<longleftrightarrow> s \<notin> set (EnabledSrcTypes B) \<or> d \<notin> set (EnabledDstTypes B)"
    by (simp add: Resolve_cases)
next
  fix e assume "Resolve B s d = Inl e"
  then show "e = UnsupportedTypeError"
    by (simp add: Resolve_cases split: if_splits)
next
  assume "s \<in> set (EnabledSrcTypes B) \<and> d \<in> set (EnabledDstTypes B) \<and> s \<noteq> d"
  then show "Resolve B s d = Inr (TensorCaster s d)"
    by (simp add: Resolve_cases)
next
  assume a: "Compute B P d context mem = Some r \<and> dtype (Input0 context) = s
      \<and> Call_dispatcher \<in> set (calls r)"
  then have c: "Compute B P d context mem = Some r" "Call_dispatcher \<in> set (calls r)"
    and s: "dtype (Input0 context) = s"
    by simp_all
  note f = Compute_dispatches_distinct_kinds [OF c, unfolded s]
  from f show "s \<noteq> d" by simp
  {
    assume "s \<notin> set (EnabledSrcTypes B) \<or> d \<notin> set (EnabledDstTypes B)"
    with f show "outcome r = Inl UnsupportedTypeError" "calls r = [Call_dispatcher]"
      by simp_all
  }
  {
    assume "s \<in> set (EnabledSrcTypes B) \<and> d \<in> set (EnabledDstTypes B)"
    with f show "calls r = [Call_dispatcher, Call_TensorCaster s d]"
      by simp
  }
qed

theorem C2_dispatcher_closure_witness:
  "T_string \<noteq> T_int8
   \<and> T_string \<in> set (EnabledSrcTypes default_build)
   \<and> T_int8 \<in> set (EnabledDstTypes default_build)
   \<and> Resolve default_build T_string T_int8 = Inr (TensorCaster T_string T_int8)
   \<and> T_complex64 \<noteq> T_int8
   \<and> T_complex64 \<notin> set (EnabledSrcTypes default_build)
   \<and> Resolve default_build T_complex64 T_int8 = Inl UnsupportedTypeError"
proof -
  have h: "T_string \<noteq> T_int8" "T_complex64 \<noteq> T_int8"
    "T_string \<in> set (EnabledSrcTypes default_build)"
    "T_int8 \<in> set (EnabledDstTypes default_build)"
    "T_complex64 \<notin> set (EnabledSrcTypes default_build)"
    by (simp_all add: default_build_def SupportedSrcTypes_def SupportedDstTypes_def)
  from C2_dispatcher_closure [of T_string T_int8 default_build] h
  have a: "Resolve default_build T_string T_int8 = Inr (TensorCaster T_string T_int8)"
    by blast
  from C2_dispatcher_closure [of T_complex64 T_int8 default_build] h
  have b: "Resolve default_build T_complex64 T_int8 = Inl UnsupportedTypeError"
    by blast
  from a b h show ?thesis
    by blast
qed

section \<open>The operator facade\<close>

text \<open>
  Claim C8: for every pair of kinds, enabled or not, an invocation on a tensor of element
  count 0 returns \<^verbatim>\<open>Status::OK()\<close> at once: the output tensor has the destination kind and
  the shape of the input and holds no element, the memory is untouched, and neither the
  dispatcher nor a caster (nor the copy routine) is called.
\<close>

theorem C8_empty_tensor:
  assumes "Size (shape (Input0 context)) = 0"
  shows "\<exists>r. Compute B P to context mem = Some r \<and> outcome r = Inr OK \<and> calls r = []
     \<and> mem_after r = mem \<and> dtype (Y r) = to \<and> shape (Y r) = shape (Input0 context)
     \<and> data (Y r) = Output0_data context \<and> contents (mem_after r) (Y r) = []"
  using assms by (simp add: Compute_def Let_def contents_def)

theorem C8_empty_tensor_witness:
  "Size (shape (Input0 (separate_context T_complex64 [2, 0, 3]))) = 0
   \<and> (\<exists>r. Compute default_build example_prims T_string (separate_context T_complex64 [2, 0, 3])
            (single_buffer []) = Some r
          \<and> outcome r = Inr OK \<and> calls r = [] \<and> shape (Y r) = [2, 0, 3])"
proof -
  have h: "Size (shape (Input0 (separate_context T_complex64 [2, 0, 3]))) = 0"
    by (simp add: separate_context_def Size_def)
  have s: "shape (Input0 (separate_context T_complex64 [2, 0, 3])) = [2, 0, 3]"
    by (simp add: separate_context_def)
  from C8_empty_tensor [OF h, of default_build example_prims T_string "single_buffer []"]
  obtain r where "Compute default_build example_prims T_string
        (separate_context T_complex64 [2, 0, 3]) (single_buffer []) = Some r"
      "outcome r = Inr OK" "calls r = []"
      "shape (Y r) = shape (Input0 (separate_context T_complex64 [2, 0, 3]))"
    by blast
  with h s show ?thesis
    by auto
qed

text \<open>
  Claim C7: for every kind K and every tensor of kind K, the invocation with destination
  kind K returns \<^verbatim>\<open>Status::OK()\<close>; the memory afterwards is the memory after one
  \<^verbatim>\<open>CopyCpuTensor\<close> from the input to the output, which leaves the memory as it is when both
  share their buffer; the output then holds the elements of the input; and the calls made
  are that one copy (none at all for an empty tensor), never the dispatcher or a caster.
\<close>

theorem C7_identity_copy:
  assumes "dtype (Input0 context) = to"
  shows "\<exists>r. Compute B P to context mem = Some r \<and> outcome r = Inr OK
     \<and> dtype (Y r) = to \<and> shape (Y r) = shape (Input0 context)
     \<and> mem_after r = CopyCpuTensor mem (Input0 context) (Y r)
     \<and> (Size (shape (Input0 context)) \<le> length (mem (data (Input0 context)))
          \<longrightarrow> contents (mem_after r) (Y r) = contents mem (Input0 context))
     \<and> (data (Input0 context) = Output0_data context \<longrightarrow> mem_after r = mem)
     \<and> calls r = (if Size (shape (Input0 context)) = 0 then [] else [Call_CopyCpuTensor])
     \<and> Call_dispatcher \<notin> set (calls r)
     \<and> (\<forall>TSrc TDst. Call_TensorCaster TSrc TDst \<notin> set (calls r))"
  using assms
  by (auto simp add: Compute_def Let_def contents_def CopyCpuTensor_def store_def)

theorem C7_identity_copy_witness:
  "dtype (Input0 (separate_context T_int16 [2])) = T_int16
   \<and> Size (shape (Input0 (separate_context T_int16 [2])))
       \<le> length (single_buffer [V_int16 7, V_int16 (- 1)] (data (Input0 (separate_context T_int16 [2]))))
   \<and> (\<exists>r. Compute default_build example_prims T_int16 (separate_context T_int16 [2])
            (single_buffer [V_int16 7, V_int16 (- 1)]) = Some r
          \<and> outcome r = Inr OK
          \<and> contents (mem_after r) (Y r) = [V_int16 7, V_int16 (- 1)]
          \<and> calls r = [Call_CopyCpuTensor])"
proof -
  have h: "dtype (Input0 (separate_context T_int16 [2])) = T_int16"
    by (simp add: separate_context_def)
  have n: "Size (shape (Input0 (separate_context T_int16 [2])))
       \<le> length (single_buffer [V_int16 7, V_int16 (- 1)] (data (Input0 (separate_context T_int16 [2]))))"
    by (simp add: separate_context_def Size_def single_buffer_def)
  have c: "contents (single_buffer [V_int16 7, V_int16 (- 1)]) (Input0 (separate_context T_int16 [2]))
       = [V_int16 7, V_int16 (- 1)]"
    by (simp add: separate_context_def Size_def single_buffer_def contents_def)
  have s: "Size (shape (Input0 (separate_context T_int16 [2]))) \<noteq> 0"
    by (simp add: separate_context_def Size_def)
  from C7_identity_copy [OF h, of default_build example_prims "single_buffer [V_int16 7, V_int16 (- 1)]"]
  obtain r where r: "Compute default_build example_prims T_int16 (separate_context T_int16 [2])
        (single_buffer [V_int16 7, V_int16 (- 1)]) = Some r"
      "outcome r = Inr OK"
      "Size (shape (Input0 (separate_context T_int16 [2])))
         \<le> length (single_buffer [V_int16 7, V_int16 (- 1)] (data (Input0 (separate_context T_int16 [2]))))
       \<longrightarrow> contents (mem_after r) (Y r)
           = contents (single_buffer [V_int16 7, V_int16 (- 1)]) (Input0 (separate_context T_int16 [2]))"
      "calls r = (if Size (shape (Input0 (separate_context T_int16 [2]))) = 0 then []
                  else [Call_CopyCpuTensor])"
    by blast
  from r n c s have "outcome r = Inr OK
      \<and> contents (mem_after r) (Y r) = [V_int16 7, V_int16 (- 1)]
      \<and> calls r = [Call_CopyCpuTensor]"
    by simp
  with r(1) h n show ?thesis
    by blast
qed

section \<open>What an invocation writes\<close>

lemma Compute_frame:
  assumes "Compute B P to context mem = Some r" and "a \<noteq> Output0_data context"
  shows "mem_after r a = mem a"
  using assms
  by (auto simp add: Compute_def Let_def CopyCpuTensor_def store_def
      split: if_splits sum.splits caster.splits option.splits)

lemma Compute_reads:
  assumes "mem2 (data (Input0 context)) = mem (data (Input0 context))"
    and "mem2 (Output0_data context) = mem (Output0_data context)"
    and "Compute B P to context mem = Some r"
  shows "\<exists>r2. Compute B P to context mem2 = Some r2 \<and> outcome r2 = outcome r
     \<and> mem_after r2 (Output0_data context) = mem_after r (Output0_data context)"
  using assms
  by (auto simp add: Compute_def Let_def CopyCpuTensor_def store_def contents_def
      split: if_splits sum.splits caster.splits option.splits)

text \<open>
  Claim C9, as stated, fails for an invocation that runs in place, which the registration
  of the kernel allows (\<^verbatim>\<open>MayInplace(0, 0)\<close>): input and output share their buffer, and the
  caster writes the output over the source. Here an int8 tensor holding 5 is cast to bool
  in place.
\<close>

theorem C9_inplace_counterexample:
  "mem_after (the (Compute default_build example_prims T_bool (inplace_context T_int8 [1])
        (single_buffer [V_int8 5])))
      (data (Input0 (inplace_context T_int8 [1]))) = [V_bool True]
   \<and> single_buffer [V_int8 5] (data (Input0 (inplace_context T_int8 [1]))) = [V_int8 5]"
  by (simp add: Compute_def Resolve_cases default_build_def SupportedSrcTypes_def
      SupportedDstTypes_def inplace_context_def single_buffer_def Size_def contents_def
      TensorCaster_Cast_def generic_Cast_def static_cast_def store_def)

text \<open>
  Claim C9, amended: an invocation writes nothing but the buffer of its output (the
  intermediate float buffer of the \<^verbatim>\<open>MLFloat16\<close> path is local to the call): every other
  address holds afterwards what it held before, so the source tensor is unchanged whenever
  the output has a buffer of its own; and the outcome and the output depend on the memory
  only through the buffers of the input and of the output.
\<close>

theorem C9_writes_only_output:
  assumes "Compute B P to context mem = Some r"
  shows "(\<forall>a. a \<noteq> Output0_data context \<longrightarrow> mem_after r a = mem a)
     \<and> (data (Input0 context) \<noteq> Output0_data context
          \<longrightarrow> contents (mem_after r) (Input0 context) = contents mem (Input0 context))
     \<and> (\<forall>mem2. mem2 (data (Input0 context)) = mem (data (Input0 context))
              \<and> mem2 (Output0_data context) = mem (Output0_data context)
          \<longrightarrow> (\<exists>r2. Compute B P to context mem2 = Some r2 \<and> outcome r2 = outcome r
                 \<and> mem_after r2 (Output0_data context) = mem_after r (Output0_data context)))"
proof (intro conjI allI impI)
  fix a assume "a \<noteq> Output0_data context"
  with assms show "mem_after r a = mem a"
    by (rule Compute_frame)
next
  assume "data (Input0 context) \<noteq> Output0_data context"
  with assms have "mem_after r (data (Input0 context)) = mem (data (Input0 context))"
    by (rule Compute_frame)
  then show "contents (mem_after r) (Input0 context) = contents mem (Input0 context)"
    by (simp add: contents_def)
next
  fix mem2
  assume "mem2 (data (Input0 context)) = mem (data (Input0 context))
      \<and> mem2 (Output0_data context) = mem (Output0_data context)"
  with assms show "\<exists>r2. Compute B P to context mem2 = Some r2 \<and> outcome r2 = outcome r
      \<and> mem_after r2 (Output0_data context) = mem_after r (Output0_data context)"
    using Compute_reads by blast
qed

theorem C9_writes_only_output_witness:
  "Compute default_build example_prims T_bool (separate_context T_int8 [1])
      (single_buffer [V_int8 5])
     = Some (the (Compute default_build example_prims T_bool (separate_context T_int8 [1])
          (single_buffer [V_int8 5])))
   \<and> data (Input0 (separate_context T_int8 [1])) \<noteq> Output0_data (separate_context T_int8 [1])
   \<and> contents (mem_after (the (Compute default_build example_prims T_bool
          (separate_context T_int8 [1]) (single_buffer [V_int8 5]))))
        (Input0 (separate_context T_int8 [1])) = [V_int8 5]"
proof -
  have h: "Compute default_build example_prims T_bool (separate_context T_int8 [1])
      (single_buffer [V_int8 5])
     = Some (the (Compute default_build example_prims T_bool (separate_context T_int8 [1])
          (single_buffer [V_int8 5])))"
    by (simp add: Compute_def Resolve_cases default_build_def SupportedSrcTypes_def
        SupportedDstTypes_def separate_context_def Size_def TensorCaster_Cast_def)
  have d: "data (Input0 (separate_context T_int8 [1])) \<noteq> Output0_data (separate_context T_int8 [1])"
    by (simp add: separate_context_def)
  have c: "contents (single_buffer [V_int8 5]) (Input0 (separate_context T_int8 [1])) = [V_int8 5]"
    by (simp add: separate_context_def Size_def single_buffer_def contents_def)
  from C9_writes_only_output [OF h] d c show ?thesis
    using h by simp
qed

section \<open>The integer parsers by cases\<close>

lemma digits_value_foldl_nonneg:
  "0 \<le> acc \<Longrightarrow> list_all isdigit ds \<Longrightarrow> 0 \<le> foldl (\<lambda>acc c. 10 * acc + digit_value c) acc ds"
proof (induction ds arbitrary: acc)
  case Nil
  then show ?case by simp
next
  case (Cons c ds)
  from Cons.prems have "0 \<le> 10 * acc + digit_value c"
    by (simp add: isdigit_def digit_value_def)
  with Cons show ?case by simp
qed

lemma list_all_takeWhile: "list_all p (takeWhile p xs)"
  by (induction xs) auto

lemma digits_value_nonneg: "0 \<le> digits_value (takeWhile isdigit s)"
  by (simp add: digits_value_def digits_value_foldl_nonneg list_all_takeWhile)

lemma subject_digits: "subject_sequence s = (negative, ds) \<Longrightarrow> 0 \<le> digits_value ds"
  using digits_value_nonneg
  by (auto simp: subject_sequence_def Let_def split: prod.splits)

lemma stoll_cases:
  "stoll s =
     (case numeric_value s of
        None \<Rightarrow> Inl invalid_argument
      | Some n \<Rightarrow> if n < - (2 ^ 63) \<or> 2 ^ 63 \<le> n then Inl out_of_range else Inr (word_of_int n))"
  by (simp add: stoll_def numeric_value_def Let_def split: prod.splits)

lemma stoull_cases:
  "stoull s =
     (case numeric_value s of
        None \<Rightarrow> Inl invalid_argument
      | Some n \<Rightarrow> if 2 ^ 64 \<le> \<bar>n\<bar> then Inl out_of_range else Inr (word_of_int n))"
proof (cases "subject_sequence s")
  case (Pair negative ds)
  from subject_digits [OF Pair] have "\<bar>digits_value ds\<bar> = digits_value ds"
    by simp
  with Pair show ?thesis
    by (simp add: stoull_def numeric_value_def)
qed

section \<open>Narrowing keeps the low bits\<close>

lemma uint_ucast_word_of_int:
  assumes "LENGTH('b::len) \<le> LENGTH('a::len)"
  shows "uint (ucast (word_of_int n :: 'a word) :: 'b word) = n mod 2 ^ LENGTH('b)"
proof -
  have "uint (ucast (word_of_int n :: 'a word) :: 'b word)
      = take_bit LENGTH('b) (take_bit LENGTH('a) n)"
    by (simp add: unsigned_of_int uint_word_of_int_eq)
  also have "\<dots> = take_bit LENGTH('b) n"
    using assms by (simp add: min_def)
  finally show ?thesis
    by (simp add: take_bit_eq_mod)
qed

lemma sint_ucast_word_of_int:
  assumes "LENGTH('b::len) \<le> LENGTH('a::len)"
  shows "sint (ucast (word_of_int n :: 'a word) :: 'b word)
     = (n + 2 ^ (LENGTH('b) - 1)) mod 2 ^ LENGTH('b) - 2 ^ (LENGTH('b) - 1)"
proof -
  have "sint (ucast (word_of_int n :: 'a word) :: 'b word)
      = signed_take_bit (LENGTH('b) - 1) (take_bit LENGTH('a) n)"
    by (simp add: unsigned_of_int sint_sbintrunc')
  also have "\<dots> = signed_take_bit (LENGTH('b) - 1) n"
    using assms by (simp add: signed_take_bit_take_bit)
  also have "\<dots> = take_bit (Suc (LENGTH('b) - 1)) (n + 2 ^ (LENGTH('b) - 1)) - 2 ^ (LENGTH('b) - 1)"
    by (rule signed_take_bit_eq_take_bit_shift)
  finally show ?thesis
    by (simp add: take_bit_eq_mod)
qed

lemma narrow_unsigned:
  "narrow_cast_integral T_uint8 (word_of_int n) = Some y \<Longrightarrow> integral_value y = Some (n mod 2 ^ 8)"
  "narrow_cast_integral T_uint16 (word_of_int n) = Some y \<Longrightarrow> integral_value y = Some (n mod 2 ^ 16)"
  "narrow_cast_integral T_uint32 (word_of_int n) = Some y \<Longrightarrow> integral_value y = Some (n mod 2 ^ 32)"
  "narrow_cast_integral T_uint64 (word_of_int n) = Some y \<Longrightarrow> integral_value y = Some (n mod 2 ^ 64)"
  using uint_ucast_word_of_int [where 'a=64 and 'b=8 and n=n]
    uint_ucast_word_of_int [where 'a=64 and 'b=16 and n=n]
    uint_ucast_word_of_int [where 'a=64 and 'b=32 and n=n]
    uint_ucast_word_of_int [where 'a=64 and 'b=64 and n=n]
  by auto

lemma narrow_signed:
  "narrow_cast_integral T_int8 (word_of_int n) = Some y \<Longrightarrow> integral_value y = Some ((n + 2 ^ 7) mod 2 ^ 8 - 2 ^ 7)"
  "narrow_cast_integral T_int16 (word_of_int n) = Some y \<Longrightarrow> integral_value y = Some ((n + 2 ^ 15) mod 2 ^ 16 - 2 ^ 15)"
  "narrow_cast_integral T_int32 (word_of_int n) = Some y \<Longrightarrow> integral_value y = Some ((n + 2 ^ 31) mod 2 ^ 32 - 2 ^ 31)"
  "narrow_cast_integral T_int64 (word_of_int n) = Some y \<Longrightarrow> integral_value y = Some ((n + 2 ^ 63) mod 2 ^ 64 - 2 ^ 63)"
  using sint_ucast_word_of_int [where 'a=64 and 'b=8 and n=n]
    sint_ucast_word_of_int [where 'a=64 and 'b=16 and n=n]
    sint_ucast_word_of_int [where 'a=64 and 'b=32 and n=n]
    sint_ucast_word_of_int [where 'a=64 and 'b=64 and n=n]
  by auto

lemma CastFromString_unsigned_kinds:
  assumes "DstType \<in> set [T_uint8, T_uint16, T_uint32, T_uint64]"
  shows "CastFromString P DstType input = narrowed (narrow_cast_integral DstType) (stoull input)"
  using assms
  by (auto simp add: CastFromString_def CastFromString_unsigned_def is_floating_point_def
      is_integral_def is_unsigned_def)

lemma CastFromString_signed_kinds:
  assumes "DstType \<in> set [T_int8, T_int16, T_int32, T_int64]"
  shows "CastFromString P DstType input = narrowed (narrow_cast_integral DstType) (stoll input)"
  using assms
  by (auto simp add: CastFromString_def CastFromString_signed_def is_floating_point_def
      is_integral_def is_unsigned_def is_signed_def)

lemma unsigned_destination_wraps:
  assumes "DstType \<in> set [T_uint8, T_uint16, T_uint32, T_uint64]"
    and "numeric_value input = Some n" and "\<bar>n\<bar> < 2 ^ 64"
  shows "\<exists>y. CastFromString P DstType input = Some (Inr y) \<and> kind_of y = DstType
          \<and> integral_value y = Some (n mod 2 ^ width DstType)"
proof -
  from assms(2,3) have "stoull input = Inr (word_of_int n)"
    by (simp add: stoull_cases)
  then have "CastFromString P DstType input
      = map_option Inr (narrow_cast_integral DstType (word_of_int n))"
    by (simp add: CastFromString_unsigned_kinds [OF assms(1)] narrowed_def)
  moreover from assms(1) obtain y
    where "narrow_cast_integral DstType (word_of_int n) = Some y" "kind_of y = DstType"
    by auto
  moreover from this assms(1) have "integral_value y = Some (n mod 2 ^ width DstType)"
    using narrow_unsigned [of n y] by auto
  ultimately show ?thesis by simp
qed

lemma signed_destination_wraps:
  assumes "DstType \<in> set [T_int8, T_int16, T_int32, T_int64]"
    and "numeric_value input = Some n" and "- (2 ^ 63) \<le> n" and "n < 2 ^ 63"
  shows "\<exists>y. CastFromString P DstType input = Some (Inr y) \<and> kind_of y = DstType
          \<and> integral_value y
              = Some ((n + 2 ^ (width DstType - 1)) mod 2 ^ width DstType - 2 ^ (width DstType - 1))"
proof -
  from assms(2,3,4) have "stoll input = Inr (word_of_int n)"
    by (simp add: stoll_cases)
  then have "CastFromString P DstType input
      = map_option Inr (narrow_cast_integral DstType (word_of_int n))"
    by (simp add: CastFromString_signed_kinds [OF assms(1)] narrowed_def)
  moreover from assms(1) obtain y
    where "narrow_cast_integral DstType (word_of_int n) = Some y" "kind_of y = DstType"
    by auto
  moreover from this assms(1) have "integral_value y
      = Some ((n + 2 ^ (width DstType - 1)) mod 2 ^ width DstType - 2 ^ (width DstType - 1))"
    using narrow_signed [of n y] by auto
  ultimately show ?thesis by simp
qed

text \<open>
  Claim C10: whenever the text denotes an integer that the 64-bit parser of the
  destination's signedness accepts, the conversion to an integer kind of width w raises no
  error, also when the integer is outside the range of that kind: an unsigned destination
  receives the integer modulo \<open>2 ^ w\<close>, a signed destination the representative of the same
  residue in the signed range.
\<close>

theorem C10_unchecked_narrowing:
  "(DstType \<in> set [T_uint8, T_uint16, T_uint32, T_uint64]
      \<and> numeric_value input = Some n \<and> \<bar>n\<bar> < 2 ^ 64
    \<longrightarrow> (\<exists>y. CastFromString P DstType input = Some (Inr y) \<and> kind_of y = DstType
          \<and> integral_value y = Some (n mod 2 ^ width DstType)))
   \<and> (DstType \<in> set [T_int8, T_int16, T_int32, T_int64]
      \<and> numeric_value input = Some n \<and> - (2 ^ 63) \<le> n \<and> n < 2 ^ 63
    \<longrightarrow> (\<exists>y. CastFromString P DstType input = Some (Inr y) \<and> kind_of y = DstType
          \<and> integral_value y
              = Some ((n + 2 ^ (width DstType - 1)) mod 2 ^ width DstType
                       - 2 ^ (width DstType - 1))))"
  using unsigned_destination_wraps [of DstType input n P]
    signed_destination_wraps [of DstType input n P]
  by blast

lemma numeric_value_300: "numeric_value ''300'' = Some 300"
  by code_simp

theorem C10_unchecked_narrowing_witness:
  "T_int8 \<in> set [T_int8, T_int16, T_int32, T_int64]
   \<and> numeric_value ''300'' = Some 300 \<and> - (2 ^ 63) \<le> (300 :: int) \<and> (300 :: int) < 2 ^ 63
   \<and> (\<exists>y. CastFromString example_prims T_int8 ''300'' = Some (Inr y) \<and> kind_of y = T_int8
          \<and> integral_value y = Some 44)"
  using C10_unchecked_narrowing [of T_int8 "''300''" 300 example_prims] numeric_value_300
  by simp

section \<open>The conversion from text against the specification's wording\<close>

lemma word_of_int_sint_narrow:
  assumes "LENGTH('b::len) \<le> LENGTH('a::len)"
  shows "(word_of_int (sint (v :: 'a word)) :: 'b word) = ucast v"
proof (rule bit_word_eqI)
  fix n assume "n < LENGTH('b)"
  with assms have "min (LENGTH('a) - 1) n = n"
    by simp
  with \<open>n < LENGTH('b)\<close>
  show "bit (word_of_int (sint v) :: 'b word) n \<longleftrightarrow> bit (ucast v :: 'b word) n"
    by (simp add: bit_signed_iff bit_ucast_iff)
qed

lemma integral_elem_uint:
  assumes "category_of K = Some UnsignedInteger"
  shows "integral_elem K (uint v) = narrow_cast_integral K v"
  using assms by (cases K) simp_all

lemma integral_elem_sint:
  assumes "category_of K = Some SignedInteger"
  shows "integral_elem K (sint v) = narrow_cast_integral K v"
  using assms
    word_of_int_sint_narrow [where 'a=64 and 'b=8 and v=v]
    word_of_int_sint_narrow [where 'a=64 and 'b=16 and v=v]
    word_of_int_sint_narrow [where 'a=64 and 'b=32 and v=v]
  by (cases K) simp_all

lemma CastFromString_floating_kinds:
  "CastFromString P T_double input =
     (case stod P input of Inl e \<Rightarrow> Some (Inl e) | Inr v \<Rightarrow> Some (Inr (V_double v)))"
  "CastFromString P T_float input =
     (case stod P input of Inl e \<Rightarrow> Some (Inl e)
      | Inr v \<Rightarrow> Some (Inr (V_float (narrow_cast_float P v))))"
  "CastFromString P T_MLFloat16 input =
     (case stod P input of Inl e \<Rightarrow> Some (Inl e)
      | Inr v \<Rightarrow> Some (Inr (V_MLFloat16 (MLFloat16_of_float P (narrow_cast_float P v)))))"
  "CastFromString P T_BFloat16 input =
     (case stod P input of Inl e \<Rightarrow> Some (Inl e)
      | Inr v \<Rightarrow> Some (Inr (V_BFloat16 (BFloat16_of_float P (narrow_cast_float P v)))))"
  by (simp_all add: CastFromString_def CastFromString_MLFloat16_def CastFromString_BFloat16_def
      CastFromString_floating_def narrowed_def is_floating_point_def split: sum.splits)

lemma CastFromString_refines:
  assumes "category_of DstType \<noteq> None"
  shows "CastFromString P DstType input = spec_text_to_numeric P DstType input"
proof -
  from assms obtain c where c: "category_of DstType = Some c"
    by auto
  show ?thesis
  proof (cases c)
    case Floating
    with c have "DstType = T_float \<or> DstType = T_double"
      by (cases DstType) simp_all
    then show ?thesis
      by (auto simp add: CastFromString_floating_kinds spec_text_to_numeric_def
          spec_parse_floating_def split: sum.splits)
  next
    case UnsignedInteger
    with c have k: "DstType \<in> set [T_uint8, T_uint16, T_uint32, T_uint64]"
      by (cases DstType) simp_all
    from c UnsignedInteger show ?thesis
      by (simp add: CastFromString_unsigned_kinds [OF k] spec_text_to_numeric_def narrowed_def
          integral_elem_uint split: sum.splits)
  next
    case SignedInteger
    with c have k: "DstType \<in> set [T_int8, T_int16, T_int32, T_int64]"
      by (cases DstType) simp_all
    from c SignedInteger show ?thesis
      by (simp add: CastFromString_signed_kinds [OF k] spec_text_to_numeric_def narrowed_def
          integral_elem_sint split: sum.splits)
  next
    case ReducedPrecisionFloat
    with c have "DstType = T_MLFloat16 \<or> DstType = T_BFloat16"
      by (cases DstType) simp_all
    then show ?thesis
      by (auto simp add: CastFromString_floating_kinds spec_text_to_numeric_def
          spec_parse_floating_def split: sum.splits)
  qed
qed

lemma narrow_cast_integral_kind:
  "narrow_cast_integral DstType v = Some y \<Longrightarrow> kind_of y = DstType"
  by (cases DstType) auto

lemma CastFromString_kind:
  assumes "CastFromString P DstType input = Some (Inr y)"
  shows "kind_of y = DstType"
proof (cases "category_of DstType")
  case None
  then have "DstType = T_bool \<or> CastFromString P DstType input = None"
    by (cases DstType)
      (simp_all add: CastFromString_def is_floating_point_def is_integral_def)
  with assms have b: "DstType = T_bool"
    by auto
  with assms show ?thesis
    by (auto simp add: CastFromString_def CastFromString_unsigned_def is_floating_point_def
        is_integral_def is_unsigned_def narrowed_def split: sum.splits)
next
  case (Some c)
  show ?thesis
  proof (cases c)
    case Floating
    with Some have "DstType = T_float \<or> DstType = T_double"
      by (cases DstType) simp_all
    with assms show ?thesis
      by (auto simp add: CastFromString_floating_kinds split: sum.splits)
  next
    case UnsignedInteger
    with Some have k: "DstType \<in> set [T_uint8, T_uint16, T_uint32, T_uint64]"
      by (cases DstType) simp_all
    from assms show ?thesis
      by (auto simp add: CastFromString_unsigned_kinds [OF k] narrowed_def
          dest: narrow_cast_integral_kind split: sum.splits)
  next
    case SignedInteger
    with Some have k: "DstType \<in> set [T_int8, T_int16, T_int32, T_int64]"
      by (cases DstType) simp_all
    from assms show ?thesis
      by (auto simp add: CastFromString_signed_kinds [OF k] narrowed_def
          dest: narrow_cast_integral_kind split: sum.splits)
  next
    case ReducedPrecisionFloat
    with Some have "DstType = T_MLFloat16 \<or> DstType = T_BFloat16"
      by (cases DstType) simp_all
    with assms show ?thesis
      by (auto simp add: CastFromString_floating_kinds split: sum.splits)
  qed
qed

text \<open>
  Claim C6: for every destination kind of the four numeric categories and every text, the
  conversion of the source is the conversion the specification words. Written out: a text
  that \<^verbatim>\<open>std::stod\<close> parses to the double v gives v itself for a double destination, v
  narrowed to a float for a float destination, and that float converted down for the two
  reduced-precision destinations; an unsigned integer destination receives the result of
  \<^verbatim>\<open>std::stoull\<close> modulo two to its width, a signed one the result of \<^verbatim>\<open>std::stoll\<close>
  brought into its range; and every result has the destination's kind.
\<close>

theorem C6_widest_parser_then_narrow:
  "(category_of DstType \<noteq> None
      \<longrightarrow> CastFromString P DstType input = spec_text_to_numeric P DstType input)
   \<and> (stod P input = Inr v
      \<longrightarrow> CastFromString P T_double input = Some (Inr (V_double v))
        \<and> CastFromString P T_float input = Some (Inr (V_float (narrow_cast_float P v)))
        \<and> CastFromString P T_MLFloat16 input
            = Some (Inr (V_MLFloat16 (MLFloat16_of_float P (narrow_cast_float P v))))
        \<and> CastFromString P T_BFloat16 input
            = Some (Inr (V_BFloat16 (BFloat16_of_float P (narrow_cast_float P v)))))
   \<and> (stoull input = Inr u \<and> category_of DstType = Some UnsignedInteger
      \<longrightarrow> (\<exists>y. CastFromString P DstType input = Some (Inr y)
            \<and> integral_value y = Some (uint u mod 2 ^ width DstType)))
   \<and> (stoll input = Inr i \<and> category_of DstType = Some SignedInteger
      \<longrightarrow> (\<exists>y. CastFromString P DstType input = Some (Inr y)
            \<and> integral_value y
                = Some ((sint i + 2 ^ (width DstType - 1)) mod 2 ^ width DstType
                         - 2 ^ (width DstType - 1))))
   \<and> (\<forall>y. CastFromString P DstType input = Some (Inr y) \<longrightarrow> kind_of y = DstType)"
proof (intro conjI impI allI)
  assume "category_of DstType \<noteq> None"
  then show "CastFromString P DstType input = spec_text_to_numeric P DstType input"
    by (rule CastFromString_refines)
next
  assume "stod P input = Inr v"
  then show "CastFromString P T_double input = Some (Inr (V_double v))"
    "CastFromString P T_float input = Some (Inr (V_float (narrow_cast_float P v)))"
    "CastFromString P T_MLFloat16 input
       = Some (Inr (V_MLFloat16 (MLFloat16_of_float P (narrow_cast_float P v))))"
    "CastFromString P T_BFloat16 input
       = Some (Inr (V_BFloat16 (BFloat16_of_float P (narrow_cast_float P v))))"
    by (simp_all add: CastFromString_floating_kinds)
next
  assume a: "stoull input = Inr u \<and> category_of DstType = Some UnsignedInteger"
  then have k: "DstType \<in> set [T_uint8, T_uint16, T_uint32, T_uint64]"
    by (cases DstType) simp_all
  from a have c: "CastFromString P DstType input
      = map_option Inr (narrow_cast_integral DstType (word_of_int (uint u)))"
    by (simp add: CastFromString_unsigned_kinds [OF k] narrowed_def)
  from k obtain y where y: "narrow_cast_integral DstType (word_of_int (uint u)) = Some y"
    by auto
  with k have "integral_value y = Some (uint u mod 2 ^ width DstType)"
    using narrow_unsigned [of "uint u" y] by auto
  with c y show "\<exists>y. CastFromString P DstType input = Some (Inr y)
      \<and> integral_value y = Some (uint u mod 2 ^ width DstType)"
    by simp
next
  assume a: "stoll input = Inr i \<and> category_of DstType = Some SignedInteger"
  then have k: "DstType \<in> set [T_int8, T_int16, T_int32, T_int64]"
    by (cases DstType) simp_all
  have w: "(word_of_int (sint i) :: 64 word) = i"
    by simp
  from a have c: "CastFromString P DstType input
      = map_option Inr (narrow_cast_integral DstType (word_of_int (sint i)))"
    by (simp add: CastFromString_signed_kinds [OF k] narrowed_def)
  from k obtain y where y: "narrow_cast_integral DstType (word_of_int (sint i)) = Some y"
    by auto
  with k have "integral_value y
      = Some ((sint i + 2 ^ (width DstType - 1)) mod 2 ^ width DstType - 2 ^ (width DstType - 1))"
    using narrow_signed [of "sint i" y] by auto
  with c y show "\<exists>y. CastFromString P DstType input = Some (Inr y)
      \<and> integral_value y
          = Some ((sint i + 2 ^ (width DstType - 1)) mod 2 ^ width DstType
                   - 2 ^ (width DstType - 1))"
    by simp
next
  fix y assume "CastFromString P DstType input = Some (Inr y)"
  then show "kind_of y = DstType"
    by (rule CastFromString_kind)
qed

lemma spec_text_42: "spec_text_to_numeric example_prims T_int8 ''42'' = Some (Inr (V_int8 42))"
  by code_simp

lemma stoll_300: "stoll ''300'' = Inr 300"
  by code_simp

theorem C6_widest_parser_then_narrow_witness:
  "category_of T_int8 \<noteq> None
   \<and> CastFromString example_prims T_int8 ''42'' = spec_text_to_numeric example_prims T_int8 ''42''
   \<and> CastFromString example_prims T_int8 ''42'' = Some (Inr (V_int8 42))
   \<and> stod through_float_prims ''1.5'' = Inr 0x3FF8000000000000
   \<and> CastFromString through_float_prims T_float ''1.5'' = Some (Inr (V_float 0x3FC00000))
   \<and> CastFromString through_float_prims T_MLFloat16 ''1.5'' = Some (Inr (V_MLFloat16 0x3E00))
   \<and> stoll ''300'' = Inr 300 \<and> category_of T_int8 = Some SignedInteger
   \<and> (\<exists>y. CastFromString example_prims T_int8 ''300'' = Some (Inr y)
          \<and> integral_value y = Some 44)"
proof -
  have h: "category_of T_int8 \<noteq> None"
    by simp
  have s: "stod through_float_prims ''1.5'' = Inr 0x3FF8000000000000"
    by (simp add: through_float_prims_def)
  have n: "narrow_cast_float through_float_prims 0x3FF8000000000000 = 0x3FC00000"
    "MLFloat16_of_float through_float_prims 0x3FC00000 = 0x3E00"
    by (simp_all add: through_float_prims_def)
  from C6_widest_parser_then_narrow [of T_int8 example_prims "''42''"] h spec_text_42
  have a: "CastFromString example_prims T_int8 ''42'' = spec_text_to_numeric example_prims T_int8 ''42''
      \<and> CastFromString example_prims T_int8 ''42'' = Some (Inr (V_int8 42))"
    by simp
  from C6_widest_parser_then_narrow [of T_float through_float_prims "''1.5''" "0x3FF8000000000000"] s
  have "CastFromString through_float_prims T_float ''1.5''
        = Some (Inr (V_float (narrow_cast_float through_float_prims 0x3FF8000000000000)))
      \<and> CastFromString through_float_prims T_MLFloat16 ''1.5''
        = Some (Inr (V_MLFloat16 (MLFloat16_of_float through_float_prims
            (narrow_cast_float through_float_prims 0x3FF8000000000000))))"
    by blast
  with n have b: "CastFromString through_float_prims T_float ''1.5'' = Some (Inr (V_float 0x3FC00000))
      \<and> CastFromString through_float_prims T_MLFloat16 ''1.5'' = Some (Inr (V_MLFloat16 0x3E00))"
    by simp
  have k: "category_of T_int8 = Some SignedInteger"
    by simp
  from C6_widest_parser_then_narrow [where DstType = T_int8 and P = example_prims
      and input = "''300''" and i = 300] stoll_300 k
  have "\<exists>y. CastFromString example_prims T_int8 ''300'' = Some (Inr y)
          \<and> integral_value y
              = Some ((sint (300 :: 64 word) + 2 ^ (width T_int8 - 1)) mod 2 ^ width T_int8
                       - 2 ^ (width T_int8 - 1))"
    by blast
  then have c: "\<exists>y. CastFromString example_prims T_int8 ''300'' = Some (Inr y)
          \<and> integral_value y = Some 44"
    by simp
  from a b c h k s stoll_300 show ?thesis
    by blast
qed

section \<open>Errors of the conversion from text\<close>

lemma narrow_cast_integral_defined:
  assumes "is_integral DstType"
  shows "\<exists>y. narrow_cast_integral DstType v = Some y \<and> kind_of y = DstType"
  using assms by (cases DstType) (simp_all add: is_integral_def)

lemma CastFromString_integral_cases:
  assumes "is_integral DstType"
  shows "CastFromString P DstType input =
     (case numeric_value input of
        None \<Rightarrow> Some (Inl invalid_argument)
      | Some n \<Rightarrow>
          if (if is_unsigned DstType then 2 ^ 64 \<le> \<bar>n\<bar> else n < - (2 ^ 63) \<or> 2 ^ 63 \<le> n)
          then Some (Inl out_of_range)
          else map_option Inr (narrow_cast_integral DstType (word_of_int n)))"
proof -
  from assms have k: "DstType \<noteq> T_MLFloat16" "DstType \<noteq> T_BFloat16" "\<not> is_floating_point DstType"
      "is_unsigned DstType \<or> is_signed DstType"
    by (auto simp add: is_integral_def is_floating_point_def is_unsigned_def is_signed_def)
  show ?thesis
  proof (cases "is_unsigned DstType")
    case True
    with assms k show ?thesis
      by (simp add: CastFromString_def CastFromString_unsigned_def narrowed_def stoull_cases
          split: option.splits)
  next
    case False
    with assms k show ?thesis
      by (simp add: CastFromString_def CastFromString_signed_def narrowed_def stoll_cases
          split: option.splits)
  qed
qed

lemma from_string_Cast_first_error:
  assumes "from_string_Cast P d xs = Some (thrown, out_data)"
  shows "length out_data \<le> length xs
     \<and> (\<forall>i<length out_data. CastFromString P d (string_of (xs ! i)) = Some (Inr (out_data ! i)))
     \<and> (case thrown of
          None \<Rightarrow> length out_data = length xs
        | Some e \<Rightarrow> length out_data < length xs
            \<and> CastFromString P d (string_of (xs ! length out_data)) = Some (Inl e))"
  using assms
proof (induction xs arbitrary: thrown out_data)
  case Nil
  then show ?case by simp
next
  case (Cons x xs)
  show ?case
  proof (cases "CastFromString P d (string_of x)")
    case None
    with Cons.prems show ?thesis by simp
  next
    case (Some res)
    show ?thesis
    proof (cases res)
      case (Inl e)
      with Some Cons.prems show ?thesis by auto
    next
      case (Inr v)
      with Some Cons.prems obtain rest where
        rest: "from_string_Cast P d xs = Some (thrown, rest)" and out: "out_data = v # rest"
        by auto
      from Cons.IH [OF rest] have ih:
        "length rest \<le> length xs"
        "\<forall>i<length rest. CastFromString P d (string_of (xs ! i)) = Some (Inr (rest ! i))"
        "case thrown of None \<Rightarrow> length rest = length xs
          | Some e \<Rightarrow> length rest < length xs
             \<and> CastFromString P d (string_of (xs ! length rest)) = Some (Inl e)"
        by simp_all
      have "\<forall>i<length out_data. CastFromString P d (string_of ((x # xs) ! i)) = Some (Inr (out_data ! i))"
      proof (intro allI impI)
        fix i assume "i < length out_data"
        then show "CastFromString P d (string_of ((x # xs) ! i)) = Some (Inr (out_data ! i))"
          using ih(2) Some Inr out by (cases i) simp_all
      qed
      with ih(1,3) out show ?thesis
        by (simp split: option.splits)
    qed
  qed
qed

lemma from_string_Cast_defined:
  assumes "\<And>input. CastFromString P d input \<noteq> None"
  shows "\<exists>thrown out_data. from_string_Cast P d xs = Some (thrown, out_data)"
proof (induction xs)
  case Nil
  then show ?case by simp
next
  case (Cons x xs)
  from assms obtain res where "CastFromString P d (string_of x) = Some res"
    by blast
  with Cons show ?case
    by (cases res) auto
qed

lemma CastFromString_integral_defined:
  assumes "is_integral DstType"
  shows "CastFromString P DstType input \<noteq> None"
  using narrow_cast_integral_defined [OF assms]
  by (auto simp add: CastFromString_integral_cases [OF assms] split: option.splits)

lemma integral_parse_errors:
  assumes "is_integral DstType"
  shows "(CastFromString P DstType input = Some (Inl invalid_argument)
        \<longleftrightarrow> numeric_value input = None)
   \<and> (CastFromString P DstType input = Some (Inl out_of_range)
        \<longleftrightarrow> (\<exists>n. numeric_value input = Some n
              \<and> (if is_unsigned DstType then 2 ^ 64 \<le> \<bar>n\<bar> else n < - (2 ^ 63) \<or> 2 ^ 63 \<le> n)))
   \<and> (\<exists>res. CastFromString P DstType input = Some res
          \<and> (\<forall>e. res = Inl e \<longrightarrow> e = invalid_argument \<or> e = out_of_range))"
proof (intro conjI)
  from narrow_cast_integral_defined [OF assms]
  show "CastFromString P DstType input = Some (Inl invalid_argument)
        \<longleftrightarrow> numeric_value input = None"
    by (auto simp add: CastFromString_integral_cases [OF assms] split: option.splits)
next
  from narrow_cast_integral_defined [OF assms]
  show "CastFromString P DstType input = Some (Inl out_of_range)
        \<longleftrightarrow> (\<exists>n. numeric_value input = Some n
              \<and> (if is_unsigned DstType then 2 ^ 64 \<le> \<bar>n\<bar> else n < - (2 ^ 63) \<or> 2 ^ 63 \<le> n))"
    by (auto simp add: CastFromString_integral_cases [OF assms] split: option.splits)
next
  show "\<exists>res. CastFromString P DstType input = Some res
          \<and> (\<forall>e. res = Inl e \<longrightarrow> e = invalid_argument \<or> e = out_of_range)"
  proof (cases "numeric_value input")
    case None
    then show ?thesis
      by (simp add: CastFromString_integral_cases [OF assms])
  next
    case (Some n)
    from narrow_cast_integral_defined [OF assms, of "word_of_int n"]
    obtain y where "narrow_cast_integral DstType (word_of_int n) = Some y"
      by blast
    with Some show ?thesis
      by (simp add: CastFromString_integral_cases [OF assms])
  qed
qed

lemma floating_parse_errors:
  assumes "DstType \<in> set [T_float, T_double, T_MLFloat16, T_BFloat16]"
  shows "(\<forall>e. CastFromString P DstType input = Some (Inl e) \<longleftrightarrow> stod P input = Inl e)
     \<and> (\<exists>res. CastFromString P DstType input = Some res)"
  using assms
  by (auto simp add: CastFromString_floating_kinds split: sum.splits)

lemma CastFromString_numeric_defined:
  assumes "is_integral DstType \<or> DstType \<in> set [T_float, T_double, T_MLFloat16, T_BFloat16]"
  shows "CastFromString P DstType input \<noteq> None"
proof (cases "is_integral DstType")
  case True
  then show ?thesis
    by (rule CastFromString_integral_defined)
next
  case False
  with assms have "DstType \<in> set [T_float, T_double, T_MLFloat16, T_BFloat16]"
    by simp
  from floating_parse_errors [OF this] show ?thesis
    by auto
qed

lemma Compute_from_string_numeric:
  assumes "is_integral DstType \<or> DstType \<in> set [T_float, T_double, T_MLFloat16, T_BFloat16]"
    and "dtype (Input0 context) = T_string"
    and "T_string \<in> set (EnabledSrcTypes B)" and "DstType \<in> set (EnabledDstTypes B)"
    and "Size (shape (Input0 context)) \<noteq> 0"
  shows "\<exists>r thrown out_data. Compute B P DstType context mem = Some r
     \<and> from_string_Cast P DstType (contents mem (Input0 context)) = Some (thrown, out_data)
     \<and> outcome r = (case thrown of None \<Rightarrow> Inr OK | Some e \<Rightarrow> Inl e)
     \<and> mem_after r = store mem (Output0_data context) out_data"
proof -
  from assms(1) have ne: "T_string \<noteq> DstType"
    by (auto simp add: is_integral_def)
  from from_string_Cast_defined [of P DstType "contents mem (Input0 context)"]
    CastFromString_numeric_defined [OF assms(1)]
  obtain thrown out_data where
    c: "from_string_Cast P DstType (contents mem (Input0 context)) = Some (thrown, out_data)"
    by blast
  from assms ne c show ?thesis
    by (simp add: Compute_def Resolve_cases TensorCaster_Cast_def)
qed

lemma Compute_propagates:
  assumes "is_integral DstType \<or> DstType \<in> set [T_float, T_double, T_MLFloat16, T_BFloat16]"
    and "dtype (Input0 context) = T_string"
    and "T_string \<in> set (EnabledSrcTypes B)" and "DstType \<in> set (EnabledDstTypes B)"
    and "Size (shape (Input0 context)) \<noteq> 0"
  shows "\<exists>r. Compute B P DstType context mem = Some r
            \<and> (case outcome r of
                 Inr status \<Rightarrow>
                   \<forall>x\<in>set (contents mem (Input0 context)).
                     \<exists>y. CastFromString P DstType (string_of x) = Some (Inr y)
               | Inl e \<Rightarrow>
                   \<exists>k<length (contents mem (Input0 context)).
                     (\<forall>i<k. \<exists>y. CastFromString P DstType
                         (string_of (contents mem (Input0 context) ! i)) = Some (Inr y))
                     \<and> CastFromString P DstType
                         (string_of (contents mem (Input0 context) ! k)) = Some (Inl e))"
proof -
  let ?xs = "contents mem (Input0 context)"
  from Compute_from_string_numeric [OF assms, of P mem]
  obtain r thrown out_data where r: "Compute B P DstType context mem = Some r"
    and c: "from_string_Cast P DstType ?xs = Some (thrown, out_data)"
    and o: "outcome r = (case thrown of None \<Rightarrow> Inr OK | Some e \<Rightarrow> Inl e)"
    by blast
  from from_string_Cast_first_error [OF c] have
    f1: "\<forall>i<length out_data. CastFromString P DstType (string_of (?xs ! i)) = Some (Inr (out_data ! i))"
    and f2: "case thrown of None \<Rightarrow> length out_data = length ?xs
        | Some e \<Rightarrow> length out_data < length ?xs
            \<and> CastFromString P DstType (string_of (?xs ! length out_data)) = Some (Inl e)"
    by simp_all
  have "case outcome r of
      Inr status \<Rightarrow> \<forall>x\<in>set ?xs. \<exists>y. CastFromString P DstType (string_of x) = Some (Inr y)
    | Inl e \<Rightarrow> \<exists>k<length ?xs.
          (\<forall>i<k. \<exists>y. CastFromString P DstType (string_of (?xs ! i)) = Some (Inr y))
          \<and> CastFromString P DstType (string_of (?xs ! k)) = Some (Inl e)"
  proof (cases thrown)
    case None
    with f2 have "length out_data = length ?xs" by simp
    with f1 have "\<forall>x\<in>set ?xs. \<exists>y. CastFromString P DstType (string_of x) = Some (Inr y)"
      by (metis in_set_conv_nth)
    with o None show ?thesis by simp
  next
    case (Some e)
    with f2 have "length out_data < length ?xs"
      "CastFromString P DstType (string_of (?xs ! length out_data)) = Some (Inl e)"
      by simp_all
    with f1 have "\<exists>k<length ?xs.
          (\<forall>i<k. \<exists>y. CastFromString P DstType (string_of (?xs ! i)) = Some (Inr y))
          \<and> CastFromString P DstType (string_of (?xs ! k)) = Some (Inl e)"
      by blast
    with o Some show ?thesis by simp
  qed
  with r show ?thesis
    by blast
qed


text \<open>
  Claim C4, as stated, fails on text with trailing characters: the parsers read the leading
  digits and leave the rest unread, so the malformed text \<open>12abc\<close> converts to the int32
  value 12 and no error is raised.
\<close>

theorem C4_trailing_text_counterexample:
  "CastFromString example_prims T_int32 ''12abc'' = Some (Inr (V_int32 12))
   \<and> \<not> well_formed_integer ''12abc''"
  by code_simp

text \<open>
  Claim C4, amended. For an integral destination the conversion throws
  \<^verbatim>\<open>std::invalid_argument\<close> exactly when the text, after leading white space and an
  optional sign, has no decimal digit, and \<^verbatim>\<open>std::out_of_range\<close> exactly when the digits
  do not fit the 64-bit parser (for a signed destination the digits with their sign, for
  an unsigned one the digits alone, whatever the sign); it throws nothing else, and nothing
  for any other text, whatever follows the digits. For a float, double, \<^verbatim>\<open>MLFloat16\<close> or
  \<^verbatim>\<open>BFloat16\<close> destination it throws exactly when \<^verbatim>\<open>std::stod\<close> throws, and what that
  throws. For every numeric destination an exception is not swallowed: \<^verbatim>\<open>Cast::Compute\<close>
  on a string tensor ends with the exception of the first element that throws, and returns
  \<^verbatim>\<open>Status::OK()\<close> only if every element converts.
\<close>

theorem C4_parse_errors:
  "(is_integral DstType
      \<longrightarrow> (CastFromString P DstType input = Some (Inl invalid_argument)
            \<longleftrightarrow> numeric_value input = None)
        \<and> (CastFromString P DstType input = Some (Inl out_of_range)
            \<longleftrightarrow> (\<exists>n. numeric_value input = Some n
                  \<and> (if is_unsigned DstType then 2 ^ 64 \<le> \<bar>n\<bar>
                     else n < - (2 ^ 63) \<or> 2 ^ 63 \<le> n)))
        \<and> (\<exists>res. CastFromString P DstType input = Some res
              \<and> (\<forall>e. res = Inl e \<longrightarrow> e = invalid_argument \<or> e = out_of_range)))
   \<and> (DstType \<in> set [T_float, T_double, T_MLFloat16, T_BFloat16]
      \<longrightarrow> (\<forall>e. CastFromString P DstType input = Some (Inl e) \<longleftrightarrow> stod P input = Inl e)
        \<and> (\<exists>res. CastFromString P DstType input = Some res))
   \<and> ((is_integral DstType \<or> DstType \<in> set [T_float, T_double, T_MLFloat16, T_BFloat16])
        \<and> dtype (Input0 context) = T_string \<and> T_string \<in> set (EnabledSrcTypes B)
        \<and> DstType \<in> set (EnabledDstTypes B) \<and> Size (shape (Input0 context)) \<noteq> 0
      \<longrightarrow> (\<exists>r. Compute B P DstType context mem = Some r
            \<and> (case outcome r of
                 Inr status \<Rightarrow>
                   \<forall>x\<in>set (contents mem (Input0 context)).
                     \<exists>y. CastFromString P DstType (string_of x) = Some (Inr y)
               | Inl e \<Rightarrow>
                   \<exists>k<length (contents mem (Input0 context)).
                     (\<forall>i<k. \<exists>y. CastFromString P DstType
                         (string_of (contents mem (Input0 context) ! i)) = Some (Inr y))
                     \<and> CastFromString P DstType
                         (string_of (contents mem (Input0 context) ! k)) = Some (Inl e))))"
  using integral_parse_errors [of DstType P input] floating_parse_errors [of DstType P input]
    Compute_propagates [of DstType "context" B P mem]
  by blast

lemma numeric_value_x: "numeric_value ''x'' = None"
  by code_simp

theorem C4_parse_errors_witness:
  "is_integral T_int8
   \<and> dtype (Input0 (separate_context T_string [2])) = T_string
   \<and> T_string \<in> set (EnabledSrcTypes default_build)
   \<and> T_int8 \<in> set (EnabledDstTypes default_build)
   \<and> Size (shape (Input0 (separate_context T_string [2]))) \<noteq> 0
   \<and> CastFromString example_prims T_int8 ''x'' = Some (Inl invalid_argument)
   \<and> (\<exists>r. Compute default_build example_prims T_int8 (separate_context T_string [2])
            (single_buffer [V_string ''42'', V_string ''x'']) = Some r)
   \<and> T_float \<in> set [T_float, T_double, T_MLFloat16, T_BFloat16]
   \<and> T_float \<in> set (EnabledDstTypes default_build)
   \<and> stod example_prims ''x'' = Inl invalid_argument
   \<and> CastFromString example_prims T_float ''x'' = Some (Inl invalid_argument)
   \<and> (\<exists>r. Compute default_build example_prims T_float (separate_context T_string [2])
            (single_buffer [V_string ''42'', V_string ''x'']) = Some r)"
proof -
  have i: "is_integral T_int8"
    by (simp add: is_integral_def)
  have f: "T_float \<in> set [T_float, T_double, T_MLFloat16, T_BFloat16]"
    by simp
  have h: "dtype (Input0 (separate_context T_string [2])) = T_string
      \<and> T_string \<in> set (EnabledSrcTypes default_build)
      \<and> T_int8 \<in> set (EnabledDstTypes default_build)
      \<and> T_float \<in> set (EnabledDstTypes default_build)
      \<and> Size (shape (Input0 (separate_context T_string [2]))) \<noteq> 0"
    by (simp add: separate_context_def default_build_def SupportedSrcTypes_def
        SupportedDstTypes_def Size_def)
  have s: "stod example_prims ''x'' = Inl invalid_argument"
    by (simp add: example_prims_def)
  from C4_parse_errors [of T_int8 example_prims "''x''" "separate_context T_string [2]"
      default_build "single_buffer [V_string ''42'', V_string ''x'']"] i h numeric_value_x
  have a: "CastFromString example_prims T_int8 ''x'' = Some (Inl invalid_argument)
      \<and> (\<exists>r. Compute default_build example_prims T_int8 (separate_context T_string [2])
            (single_buffer [V_string ''42'', V_string ''x'']) = Some r)"
    by blast
  from C4_parse_errors [of T_float example_prims "''x''" "separate_context T_string [2]"
      default_build "single_buffer [V_string ''42'', V_string ''x'']"] f h s
  have b: "CastFromString example_prims T_float ''x'' = Some (Inl invalid_argument)
      \<and> (\<exists>r. Compute default_build example_prims T_float (separate_context T_string [2])
            (single_buffer [V_string ''42'', V_string ''x'']) = Some r)"
    by blast
  from a b i f h s show ?thesis
    by blast
qed

section \<open>Text round trip of the integers\<close>

lemma digit_char:
  assumes "k < 10"
  shows "isdigit (char_of (48 + k :: nat))" and "digit_value (char_of (48 + k :: nat)) = int k"
    and "\<not> isspace (char_of (48 + k :: nat))" and "char_of (48 + k :: nat) \<noteq> CHR ''-''"
    and "char_of (48 + k :: nat) \<noteq> CHR ''+''"
proof -
  have "(of_char (char_of (48 + k :: nat)) :: int) = int (of_char (char_of (48 + k :: nat)))"
    by (simp only: of_nat_of_char)
  also have "\<dots> = int ((48 + k) mod 256)"
    by (simp only: of_char_of)
  also from assms have "\<dots> = 48 + int k"
    by simp
  finally have v: "(of_char (char_of (48 + k :: nat)) :: int) = 48 + int k" .
  with assms show "isdigit (char_of (48 + k :: nat))"
    by (simp add: isdigit_def)
  from v show "digit_value (char_of (48 + k :: nat)) = int k"
    by (simp add: digit_value_def)
  have "(of_char c :: int) < 48" if "isspace c \<or> c = CHR ''-'' \<or> c = CHR ''+''" for c
    using that by (auto simp add: isspace_def)
  with v show "\<not> isspace (char_of (48 + k :: nat))" "char_of (48 + k :: nat) \<noteq> CHR ''-''"
    "char_of (48 + k :: nat) \<noteq> CHR ''+''"
    by fastforce+
qed

lemma digits_value_snoc: "digits_value (ds @ [c]) = 10 * digits_value ds + digit_value c"
  by (simp add: digits_value_def)

lemma decimal_digits_props:
  "list_all isdigit (decimal_digits n) \<and> decimal_digits n \<noteq> []
     \<and> digits_value (decimal_digits n) = int n
     \<and> \<not> isspace (hd (decimal_digits n)) \<and> hd (decimal_digits n) \<noteq> CHR ''-''
     \<and> hd (decimal_digits n) \<noteq> CHR ''+''"
proof (induction n rule: decimal_digits.induct)
  case (1 n)
  show ?case
  proof (cases "n < 10")
    case True
    then have "decimal_digits n = [char_of (48 + n)]"
      by (simp add: decimal_digits.simps)
    with True digit_char [of n] show ?thesis
      by (simp add: digits_value_def)
  next
    case False
    then have d: "decimal_digits n = decimal_digits (n div 10) @ [char_of (48 + n mod 10)]"
      by (subst decimal_digits.simps) simp
    from False "1.IH" have ih: "list_all isdigit (decimal_digits (n div 10))"
        "decimal_digits (n div 10) \<noteq> []"
        "digits_value (decimal_digits (n div 10)) = int (n div 10)"
        "\<not> isspace (hd (decimal_digits (n div 10)))" "hd (decimal_digits (n div 10)) \<noteq> CHR ''-''"
        "hd (decimal_digits (n div 10)) \<noteq> CHR ''+''"
      by simp_all
    have m: "n mod 10 < 10" by simp
    have "int (10 * (n div 10) + n mod 10) = int n"
      by simp
    then have a: "10 * int (n div 10) + int (n mod 10) = int n"
      by (simp only: of_nat_add of_nat_mult of_nat_numeral)
    from digit_char [OF m] ih d a show ?thesis
      by (simp add: digits_value_snoc)
  qed
qed

lemma takeWhile_all: "list_all p xs \<Longrightarrow> takeWhile p xs = xs"
  by (induction xs) auto

lemma numeric_value_decimal: "numeric_value (decimal i) = Some i"
proof -
  define n where "n = nat \<bar>i\<bar>"
  from decimal_digits_props [of n] obtain c cs where cs: "decimal_digits n = c # cs"
    and p: "list_all isdigit (c # cs)" "digits_value (c # cs) = int n"
      "\<not> isspace c" "c \<noteq> CHR ''-''" "c \<noteq> CHR ''+''"
    by (cases "decimal_digits n") auto
  from p(1) have t: "takeWhile isdigit (c # cs) = c # cs"
    by (rule takeWhile_all)
  show ?thesis
  proof (cases "i < 0")
    case True
    then have "decimal i = CHR ''-'' # c # cs"
      using cs by (simp add: decimal_def n_def)
    moreover have "\<not> isspace CHR ''-''"
      by (simp add: isspace_def)
    ultimately have "subject_sequence (decimal i) = (True, c # cs)"
      using t by (simp add: subject_sequence_def del: takeWhile.simps)
    with p(2) True show ?thesis
      by (simp add: numeric_value_def n_def)
  next
    case False
    then have "decimal i = c # cs"
      using cs by (simp add: decimal_def n_def)
    with p t have "subject_sequence (decimal i) = (False, c # cs)"
      by (simp add: subject_sequence_def del: takeWhile.simps)
    with p(2) False show ?thesis
      by (simp add: numeric_value_def n_def)
  qed
qed

lemma ucast_word_of_int_uint:
  fixes w :: "'b::len word"
  assumes "LENGTH('b) \<le> LENGTH('a::len)"
  shows "(ucast (word_of_int (uint w) :: 'a word) :: 'b word) = w"
proof (rule bit_word_eqI)
  fix n assume "n < LENGTH('b)"
  with assms show "bit (ucast (word_of_int (uint w) :: 'a word) :: 'b word) n \<longleftrightarrow> bit w n"
    by (simp add: bit_ucast_iff)
qed

lemma ucast_word_of_int_sint:
  fixes w :: "'b::len word"
  assumes "LENGTH('b) \<le> LENGTH('a::len)"
  shows "(ucast (word_of_int (sint w) :: 'a word) :: 'b word) = w"
proof (rule bit_word_eqI)
  fix n assume n: "n < LENGTH('b)"
  then have "min (LENGTH('b) - 1) n = n"
    by simp
  with n assms show "bit (ucast (word_of_int (sint w) :: 'a word) :: 'b word) n \<longleftrightarrow> bit w n"
    by (simp add: bit_ucast_iff bit_signed_iff)
qed

lemma stoull_decimal_uint:
  fixes w :: "'b::len word"
  assumes "LENGTH('b) \<le> 64"
  shows "stoull (decimal (uint w)) = Inr (word_of_int (uint w))"
proof -
  have "uint w < 2 ^ LENGTH('b)"
    by (rule uint_lt2p)
  also from assms have "(2 :: int) ^ LENGTH('b) \<le> 2 ^ 64"
    by (rule power_increasing) simp
  finally have "\<bar>uint w\<bar> < 2 ^ 64"
    by simp
  then show ?thesis
    by (simp add: stoull_cases numeric_value_decimal)
qed

lemma stoll_decimal_sint:
  fixes w :: "'b::len word"
  assumes "LENGTH('b) \<le> 64"
  shows "stoll (decimal (sint w)) = Inr (word_of_int (sint w))"
proof -
  from assms have p: "(2 :: int) ^ (LENGTH('b) - 1) \<le> 2 ^ 63"
    by (intro power_increasing) simp_all
  have "- (2 ^ (LENGTH('b) - 1)) \<le> sint w" "sint w < 2 ^ (LENGTH('b) - 1)"
    by (rule sint_ge, rule sint_lt)
  with p have "- (2 ^ 63) \<le> sint w" "sint w < 2 ^ 63"
    by linarith+
  then show ?thesis
    by (simp add: stoll_cases numeric_value_decimal)
qed

lemma stoull_bool: "stoull ''1'' = Inr 1" "stoull ''0'' = Inr 0"
  by code_simp+

text \<open>
  A bool and every integer of 16 bits or more is rendered in decimal and parses back to
  itself, for every value.
\<close>

lemma round_trip_wide_integers:
  assumes "kind_of x \<in> set [T_bool, T_uint16, T_uint32, T_uint64, T_int16, T_int32, T_int64]"
  shows "CastFromString P (kind_of x) (CastToString P x) = Some (Inr x)"
proof (cases x)
  case (V_bool b)
  then show ?thesis
    by (simp add: CastFromString_def CastFromString_unsigned_def is_floating_point_def
        is_integral_def is_unsigned_def narrowed_def stoull_bool)
next
  case (V_uint16 w)
  with ucast_word_of_int_uint [where 'a=64, of w] stoull_decimal_uint [of w] show ?thesis
    by (simp add: CastFromString_unsigned_kinds narrowed_def)
next
  case (V_uint32 w)
  with ucast_word_of_int_uint [where 'a=64, of w] stoull_decimal_uint [of w] show ?thesis
    by (simp add: CastFromString_unsigned_kinds narrowed_def)
next
  case (V_uint64 w)
  with stoull_decimal_uint [of w] show ?thesis
    by (simp add: CastFromString_unsigned_kinds narrowed_def)
next
  case (V_int16 w)
  with ucast_word_of_int_sint [where 'a=64, of w] stoll_decimal_sint [of w] show ?thesis
    by (simp add: CastFromString_signed_kinds narrowed_def)
next
  case (V_int32 w)
  with ucast_word_of_int_sint [where 'a=64, of w] stoll_decimal_sint [of w] show ?thesis
    by (simp add: CastFromString_signed_kinds narrowed_def)
next
  case (V_int64 w)
  with stoll_decimal_sint [of w] show ?thesis
    by (simp add: CastFromString_signed_kinds narrowed_def)
qed (use assms in simp_all)

text \<open>
  Claim C3 asks that parsing the rendering of an integer gives the integer back. The
  stream insertion of \<^verbatim>\<open>CastToString\<close> writes a \<^verbatim>\<open>uint8_t\<close> or \<^verbatim>\<open>int8_t\<close> as a character:
  the uint8 value 65 is rendered as the text \<open>A\<close>, which the parser rejects, and the int8
  value 53 as the text \<open>5\<close>, which parses to 5.
\<close>

theorem C3_char_rendering_breaks_round_trip:
  "CastToString example_prims (V_uint8 65) = ''A''
   \<and> CastFromString example_prims T_uint8 (CastToString example_prims (V_uint8 65))
       = Some (Inl invalid_argument)
   \<and> CastToString example_prims (V_int8 53) = ''5''
   \<and> CastFromString example_prims T_int8 (CastToString example_prims (V_int8 53))
       = Some (Inr (V_int8 5))"
  by code_simp

section \<open>Floating-point values to text\<close>

lemma uint_sign_magnitude:
  fixes v :: "'a::len word"
  shows "uint v = magnitude v + (if signbit v then 2 ^ (LENGTH('a) - 1) else 0)"
proof -
  have "uint v = take_bit (Suc (LENGTH('a) - 1)) (uint v)"
    by (simp add: bintr_uint)
  also have "\<dots> = 2 ^ (LENGTH('a) - 1) * of_bool (bit (uint v) (LENGTH('a) - 1))
      + take_bit (LENGTH('a) - 1) (uint v)"
    by (rule take_bit_Suc_from_most)
  finally have "uint v = 2 ^ (LENGTH('a) - 1) * of_bool (signbit v) + magnitude v"
    by (simp add: magnitude_def signbit_def bit_uint_iff unsigned_take_bit_eq)
  then show ?thesis
    by (cases "signbit v") simp_all
qed

lemma magnitude_nonneg: "0 \<le> magnitude v"
  by (simp add: magnitude_def)

lemma float_constants:
  "infinity_magnitude TYPE(32) 23 = 2139095040"
  "magnitude (lowest 23 :: 32 word) = 2139095039"
  "signbit (lowest 23 :: 32 word)"
  by (simp_all add: infinity_magnitude_def magnitude_def lowest_def signbit_def unsigned_take_bit_eq)

lemma double_constants:
  "infinity_magnitude TYPE(64) 52 = 9218868437227405312"
  "magnitude (lowest 52 :: 64 word) = 9218868437227405311"
  "signbit (lowest 52 :: 64 word)"
  by (simp_all add: infinity_magnitude_def magnitude_def lowest_def signbit_def unsigned_take_bit_eq)

lemma CastToString_float_cases:
  fixes v :: "32 word"
  shows "CastToString_floating 23 put v =
     (if isnan 23 v then ''NaN''
      else if isinf 23 v then (if signbit v then ''-INF'' else ''INF'')
      else put 8 v)"
    and "\<not> isnan 23 v \<Longrightarrow> \<not> isinf 23 v \<Longrightarrow> \<not> fp_less 23 v (lowest 23)"
  using float_constants magnitude_nonneg [of v]
  by (auto simp add: CastToString_floating_def isnan_def isinf_def fp_less_def fp_order_def)

lemma CastToString_double_cases:
  fixes v :: "64 word"
  shows "CastToString_floating 52 put v =
     (if isnan 52 v then ''NaN''
      else if isinf 52 v then (if signbit v then ''-INF'' else ''INF'')
      else put 8 v)"
    and "\<not> isnan 52 v \<Longrightarrow> \<not> isinf 52 v \<Longrightarrow> \<not> fp_less 52 v (lowest 52)"
  using double_constants magnitude_nonneg [of v]
  by (auto simp add: CastToString_floating_def isnan_def isinf_def fp_less_def fp_order_def)

lemma float_infinities:
  fixes v :: "32 word"
  shows "isinf 23 v \<and> \<not> signbit v \<longleftrightarrow> v = 0x7F800000"
    and "isinf 23 v \<and> signbit v \<longleftrightarrow> v = 0xFF800000"
proof -
  have p: "isinf 23 (0x7F800000 :: 32 word)" "\<not> signbit (0x7F800000 :: 32 word)"
    and n: "isinf 23 (0xFF800000 :: 32 word)" "signbit (0xFF800000 :: 32 word)"
    by (simp_all add: isinf_def signbit_def magnitude_def infinity_magnitude_def unsigned_take_bit_eq)
  have "v = 0x7F800000" if "isinf 23 v" "\<not> signbit v"
  proof -
    from that uint_sign_magnitude [of v] have "uint v = 2139095040"
      by (simp add: isinf_def float_constants)
    then have "word_of_int (uint v) = (word_of_int 2139095040 :: 32 word)"
      by simp
    then show ?thesis by simp
  qed
  with p show "isinf 23 v \<and> \<not> signbit v \<longleftrightarrow> v = 0x7F800000"
    by blast
  have "v = 0xFF800000" if "isinf 23 v" "signbit v"
  proof -
    from that uint_sign_magnitude [of v] have "uint v = 4286578688"
      by (simp add: isinf_def float_constants)
    then have "word_of_int (uint v) = (word_of_int 4286578688 :: 32 word)"
      by simp
    then show ?thesis by simp
  qed
  with n show "isinf 23 v \<and> signbit v \<longleftrightarrow> v = 0xFF800000"
    by blast
qed

lemma double_infinities:
  fixes v :: "64 word"
  shows "isinf 52 v \<and> \<not> signbit v \<longleftrightarrow> v = 0x7FF0000000000000"
    and "isinf 52 v \<and> signbit v \<longleftrightarrow> v = 0xFFF0000000000000"
proof -
  have p: "isinf 52 (0x7FF0000000000000 :: 64 word)" "\<not> signbit (0x7FF0000000000000 :: 64 word)"
    and n: "isinf 52 (0xFFF0000000000000 :: 64 word)" "signbit (0xFFF0000000000000 :: 64 word)"
    by (simp_all add: isinf_def signbit_def magnitude_def infinity_magnitude_def unsigned_take_bit_eq)
  have "v = 0x7FF0000000000000" if "isinf 52 v" "\<not> signbit v"
  proof -
    from that uint_sign_magnitude [of v] have "uint v = 9218868437227405312"
      by (simp add: isinf_def double_constants)
    then have "word_of_int (uint v) = (word_of_int 9218868437227405312 :: 64 word)"
      by simp
    then show ?thesis by simp
  qed
  with p show "isinf 52 v \<and> \<not> signbit v \<longleftrightarrow> v = 0x7FF0000000000000"
    by blast
  have "v = 0xFFF0000000000000" if "isinf 52 v" "signbit v"
  proof -
    from that uint_sign_magnitude [of v] have "uint v = 18442240474082181120"
      by (simp add: isinf_def double_constants)
    then have "word_of_int (uint v) = (word_of_int 18442240474082181120 :: 64 word)"
      by simp
    then show ?thesis by simp
  qed
  with n show "isinf 52 v \<and> signbit v \<longleftrightarrow> v = 0xFFF0000000000000"
    by blast
qed

text \<open>
  Claim C5: \<^verbatim>\<open>CastToString\<close> of a float or a double gives \<open>NaN\<close> for every NaN, \<open>INF\<close>
  for positive infinity and \<open>-INF\<close> for negative infinity; every other value is finite, is
  not below \<^verbatim>\<open>lowest()\<close> (no finite value is), and is written by the stream with precision
  8. An \<^verbatim>\<open>MLFloat16\<close> or \<^verbatim>\<open>BFloat16\<close> is converted to float and then treated as a float.
\<close>

theorem C5_floating_to_text:
  "(isnan 23 f \<longrightarrow> CastToString P (V_float f) = ''NaN'')
   \<and> (f = 0x7F800000 \<longrightarrow> CastToString P (V_float f) = ''INF'')
   \<and> (f = 0xFF800000 \<longrightarrow> CastToString P (V_float f) = ''-INF'')
   \<and> (\<not> isnan 23 f \<and> f \<noteq> 0x7F800000 \<and> f \<noteq> 0xFF800000
        \<longrightarrow> \<not> fp_less 23 f (lowest 23)
          \<and> CastToString P (V_float f) = ostream_float P 8 f)
   \<and> (isnan 52 d \<longrightarrow> CastToString P (V_double d) = ''NaN'')
   \<and> (d = 0x7FF0000000000000 \<longrightarrow> CastToString P (V_double d) = ''INF'')
   \<and> (d = 0xFFF0000000000000 \<longrightarrow> CastToString P (V_double d) = ''-INF'')
   \<and> (\<not> isnan 52 d \<and> d \<noteq> 0x7FF0000000000000 \<and> d \<noteq> 0xFFF0000000000000
        \<longrightarrow> \<not> fp_less 52 d (lowest 52)
          \<and> CastToString P (V_double d) = ostream_double P 8 d)
   \<and> CastToString P (V_MLFloat16 h) = CastToString P (V_float (float_of_MLFloat16 P h))
   \<and> CastToString P (V_BFloat16 b) = CastToString P (V_float (float_of_BFloat16 P b))"
proof -
  have nf: "\<not> isnan 23 (0x7F800000 :: 32 word)" "\<not> isnan 23 (0xFF800000 :: 32 word)"
    and nd: "\<not> isnan 52 (0x7FF0000000000000 :: 64 word)" "\<not> isnan 52 (0xFFF0000000000000 :: 64 word)"
    using float_infinities [of "0x7F800000"] float_infinities [of "0xFF800000"]
      double_infinities [of "0x7FF0000000000000"] double_infinities [of "0xFFF0000000000000"]
    by (simp_all add: isnan_def isinf_def)
  have float: "(isnan 23 f \<longrightarrow> CastToString P (V_float f) = ''NaN'')
   \<and> (f = 0x7F800000 \<longrightarrow> CastToString P (V_float f) = ''INF'')
   \<and> (f = 0xFF800000 \<longrightarrow> CastToString P (V_float f) = ''-INF'')
   \<and> (\<not> isnan 23 f \<and> f \<noteq> 0x7F800000 \<and> f \<noteq> 0xFF800000
        \<longrightarrow> \<not> fp_less 23 f (lowest 23)
          \<and> CastToString P (V_float f) = ostream_float P 8 f)"
    using float_infinities [of f] CastToString_float_cases(2) [of f] nf
    by (auto simp add: CastToString_float_cases(1))
  have double: "(isnan 52 d \<longrightarrow> CastToString P (V_double d) = ''NaN'')
   \<and> (d = 0x7FF0000000000000 \<longrightarrow> CastToString P (V_double d) = ''INF'')
   \<and> (d = 0xFFF0000000000000 \<longrightarrow> CastToString P (V_double d) = ''-INF'')
   \<and> (\<not> isnan 52 d \<and> d \<noteq> 0x7FF0000000000000 \<and> d \<noteq> 0xFFF0000000000000
        \<longrightarrow> \<not> fp_less 52 d (lowest 52)
          \<and> CastToString P (V_double d) = ostream_double P 8 d)"
    using double_infinities [of d] CastToString_double_cases(2) [of d] nd
    by (auto simp add: CastToString_double_cases(1))
  from float double show ?thesis
    by simp
qed

lemma example_patterns:
  "isnan 23 (0x7FC00000 :: 32 word)"
  "\<not> isnan 23 (0x3FC00000 :: 32 word)"
  "isnan 52 (0x7FF8000000000000 :: 64 word)"
  by (simp_all add: isnan_def magnitude_def infinity_magnitude_def unsigned_take_bit_eq)

theorem C5_floating_to_text_witness:
  "isnan 23 (0x7FC00000 :: 32 word)
   \<and> CastToString example_prims (V_float 0x7FC00000) = ''NaN''
   \<and> CastToString example_prims (V_float 0x7F800000) = ''INF''
   \<and> CastToString example_prims (V_float 0xFF800000) = ''-INF''
   \<and> \<not> isnan 23 (0x3FC00000 :: 32 word)
   \<and> (0x3FC00000 :: 32 word) \<noteq> 0x7F800000 \<and> (0x3FC00000 :: 32 word) \<noteq> 0xFF800000
   \<and> CastToString example_prims (V_float 0x3FC00000) = ostream_float example_prims 8 0x3FC00000
   \<and> isnan 52 (0x7FF8000000000000 :: 64 word)
   \<and> CastToString example_prims (V_double 0x7FF8000000000000) = ''NaN''"
  using C5_floating_to_text [where f = "0x7FC00000" and P = example_prims and d = "0x7FF8000000000000"]
    C5_floating_to_text [where f = "0x7F800000" and P = example_prims]
    C5_floating_to_text [where f = "0xFF800000" and P = example_prims]
    C5_floating_to_text [where f = "0x3FC00000" and P = example_prims]
    example_patterns
  by simp

section \<open>The \<^verbatim>\<open>MLFloat16\<close> specializations against the generic caster\<close>











end
